theory Spec2Isabelle
  imports Main "HOL-Library.Sublist"
begin

section \<open>Values, errors and decimal rendering\<close>

text \<open>
  The escrow service is three JavaScript modules: \<^verbatim>\<open>lib/wallet.js\<close> (key derivation),
  \<^verbatim>\<open>lib/solana.js\<close> (ledger reads, sender detection, sweeps) and the two request
  handlers \<^verbatim>\<open>api/session.js\<close> and \<^verbatim>\<open>api/poll/[sessionId].js\<close> (the version with the
  \<^verbatim>\<open>minting\<close> guard). Addresses and transaction signatures are base58 strings.
\<close>

type_synonym address = string
type_synonym signature = string

text \<open>Request bodies and session metadata are untyped JSON; numbers are restricted to integers.\<close>

datatype json =
    JNull
  | JBool bool
  | JNum int
  | JStr string
  | JArr "json list"
  | JObj "(string \<times> json) list"

text \<open>JavaScript truthiness, as used by \<^verbatim>\<open>if (!outputType)\<close> and \<^verbatim>\<open>meta.mode ? ... : ...\<close>.\<close>

fun truthy :: "json \<Rightarrow> bool" where
  "truthy JNull = False"
| "truthy (JBool b) = b"
| "truthy (JNum n) = (n \<noteq> 0)"
| "truthy (JStr s) = (s \<noteq> [])"
| "truthy (JArr xs) = True"
| "truthy (JObj kvs) = True"

text \<open>A thrown value: the \<^verbatim>\<open>name\<close> and \<^verbatim>\<open>message\<close> of an Error object (the stack text is
  specific to the runtime and is left out).\<close>

datatype js_error = JsError (err_name: string) (err_message: string)

definition new_Error :: "string \<Rightarrow> js_error" where
  "new_Error msg = JsError ''Error'' msg"

text \<open>\<^verbatim>\<open>String(err)\<close>, that is \<^verbatim>\<open>Error.prototype.toString\<close>.\<close>

definition js_String :: "js_error \<Rightarrow> string" where
  "js_String err =
     (if err_name err = [] then err_message err
      else if err_message err = [] then err_name err
      else err_name err @ '': '' @ err_message err)"

text \<open>Template literals render integers in decimal.\<close>

definition digit_char :: "nat \<Rightarrow> char" where
  "digit_char d = ''0123456789'' ! d"

fun show_nat :: "nat \<Rightarrow> string" where
  "show_nat n = (if n < 10 then [digit_char n] else show_nat (n div 10) @ [digit_char (n mod 10)])"

declare show_nat.simps [simp del]

definition show_int :: "int \<Rightarrow> string" where
  "show_int i = (if i < 0 then ''-'' @ show_nat (nat (- i)) else show_nat (nat i))"

text \<open>\<^verbatim>\<open>haystack.includes(needle)\<close>.\<close>

fun str_includes :: "string \<Rightarrow> string \<Rightarrow> bool" where
  "str_includes [] needle = (needle = [])"
| "str_includes (c # cs) needle = (prefix needle (c # cs) \<or> str_includes cs needle)"

definition is_digit :: "char \<Rightarrow> bool" where
  "is_digit c = (c \<in> set ''0123456789'')"

text \<open>The capture group of \<^verbatim>\<open>errMsg.match(/need (\d+)/)\<close>: the leftmost place where
  \<^verbatim>\<open>need \<close> is followed by a digit, and the longest run of digits there.\<close>

fun match_need :: "string \<Rightarrow> string option" where
  "match_need [] = None"
| "match_need (c # cs) =
     (let rest = drop 5 (c # cs)
      in if prefix ''need '' (c # cs) \<and> rest \<noteq> [] \<and> is_digit (hd rest)
         then Some (takeWhile is_digit rest)
         else match_need cs)"

definition is_space :: "char \<Rightarrow> bool" where
  "is_space c = (c \<in> set [CHR '' '', CHR 0x09, CHR 0x0A, CHR 0x0B, CHR 0x0C, CHR 0x0D])"

text \<open>\<^verbatim>\<open>s.trim()\<close> on ASCII white space.\<close>

definition trim :: "string \<Rightarrow> string" where
  "trim s = rev (dropWhile is_space (rev (dropWhile is_space s)))"


section \<open>Data model\<close>

text \<open>The session record built by \<^verbatim>\<open>api/session.js\<close> and stored as JSON under
  \<^verbatim>\<open>session:<sessionId>\<close>. The status is a plain string in the source.\<close>

record session =
  sessionId :: string
  sessionIndex :: int
  paymentAddress :: address
  outputType :: json
  metadata :: json
  status :: string
  createdAt :: int
  expiresAt :: int
  requiredUsdc :: nat
  buyerWallet :: "address option"
  mintAddress :: "address option"
  mintSignature :: "signature option"
  sweepSignature :: "signature option"

record keypair =
  publicKey :: address
  secretKey :: string

text \<open>One entry of \<^verbatim>\<open>tx.meta.preTokenBalances\<close> / \<^verbatim>\<open>postTokenBalances\<close>; the amount is
  \<^verbatim>\<open>Number(uiTokenAmount.amount)\<close> (exact below \<open>2^53\<close>).\<close>

record token_balance =
  accountIndex :: nat
  tb_mint :: string
  tb_owner :: address
  tb_amount :: nat

text \<open>A confirmed transaction as \<^verbatim>\<open>findUsdcSender\<close> reads it; a missing \<^verbatim>\<open>meta\<close> or a
  missing balance list is the empty list (\<^verbatim>\<open>tx.meta?.preTokenBalances || []\<close>).\<close>

record ledger_tx =
  preTokenBalances :: "token_balance list"
  postTokenBalances :: "token_balance list"

text \<open>Transactions the service signs and submits with \<^verbatim>\<open>sendAndConfirm\<close>.\<close>

datatype chain_tx =
    SystemTransfer address address int  \<comment> \<open>from, to, lamports\<close>
  | TokenTransfer address address nat  \<comment> \<open>USDC: owner of the source account, owner of the destination, amount\<close>
  | CreateNft address address string  \<comment> \<open>new mint, token owner, metadata URI\<close>

record pin_data =
  IpfsHash :: "string option"
  pin_json :: string

record mint_result =
  mr_mintAddress :: address
  mr_signature :: signature
  mr_metadataUri :: string

text \<open>
  Everything outside the program that one invocation reads: the clock, the process
  environment, and the answers of the external services (the HD-wallet library, the key-value
  store's availability, the ledger RPC, the pinning service). Token accounts are indexed by
  the owning wallet (the associated-token-address derivation is a fixed function of the
  owner). Successive \<^verbatim>\<open>Date.now()\<close> calls of one invocation read the same instant.
\<close>

record env =
  now :: int
  MASTER_SEED_PHRASE :: "string option"
  PINATA_JWT :: "string option"
  hd_derive :: "string \<Rightarrow> string \<Rightarrow> js_error + keypair"
  kv_error :: "js_error option"
  connection_error :: "js_error option"
  token_account :: "address \<Rightarrow> js_error + nat"
  signatures_for :: "address \<Rightarrow> js_error + signature list"
  transaction_of :: "signature \<Rightarrow> js_error + ledger_tx option"
  lamports_of :: "address \<Rightarrow> js_error + nat"
  send_result :: "chain_tx \<Rightarrow> js_error + signature"
  ensure_ata :: "address \<Rightarrow> address \<Rightarrow> js_error + address"
  pin_result :: "js_error + pin_data"
  new_mint :: address

text \<open>The durable store: the \<^verbatim>\<open>session:\<close> and \<^verbatim>\<open>address:\<close> key spaces (each value with
  the TTL in seconds it was written with) and the session counter (an absent counter is 0).\<close>

record kv =
  sessions :: "string \<rightharpoonup> session \<times> nat"
  addresses :: "address \<rightharpoonup> string \<times> nat"
  counter :: int

text \<open>What an invocation does to the outside world, in order.\<close>

datatype effect =
    KvGet string
  | KvSetSession string session nat
  | KvSetAddress string string nat
  | KvIncr string
  | RpcTokenAccount address
  | RpcSignatures address nat
  | RpcTransaction signature
  | RpcBalance address
  | RpcEnsureAta address address
  | Submit chain_tx
  | PinFile
  | ConsoleError string js_error


section \<open>Asynchronous code: store passing, thrown errors, a trace of effects\<close>

type_synonym 'a prog = "kv \<Rightarrow> (js_error + 'a) \<times> kv \<times> effect list"

definition pret :: "'a \<Rightarrow> 'a prog" where
  "pret x s = (Inr x, s, [])"

definition pthrow :: "js_error \<Rightarrow> 'a prog" where
  "pthrow err s = (Inl err, s, [])"

definition of_result :: "js_error + 'a \<Rightarrow> 'a prog" where
  "of_result r s = (r, s, [])"

definition emit :: "effect \<Rightarrow> unit prog" where
  "emit ev s = (Inr (), s, [ev])"

definition pbind :: "'a prog \<Rightarrow> ('a \<Rightarrow> 'b prog) \<Rightarrow> 'b prog" where
  "pbind m f s =
     (case m s of
        (Inl err, s1, t1) \<Rightarrow> (Inl err, s1, t1)
      | (Inr x, s1, t1) \<Rightarrow> (case f x s1 of (r, s2, t2) \<Rightarrow> (r, s2, t1 @ t2)))"

text \<open>\<^verbatim>\<open>try { m } catch (err) { h(err) }\<close>.\<close>

definition ptry :: "'a prog \<Rightarrow> (js_error \<Rightarrow> 'a prog) \<Rightarrow> 'a prog" where
  "ptry m h s =
     (case m s of
        (Inl err, s1, t1) \<Rightarrow> (case h err s1 of (r, s2, t2) \<Rightarrow> (r, s2, t1 @ t2))
      | (Inr x, s1, t1) \<Rightarrow> (Inr x, s1, t1))"

text \<open>Running a statement of a \<^verbatim>\<open>try\<close> block and keeping what it threw as a value, for
  \<^verbatim>\<open>catch\<close> blocks that go on with the object as mutated so far.\<close>

definition attempt :: "'a prog \<Rightarrow> (js_error + 'a) prog" where
  "attempt m s = (case m s of (r, s1, t1) \<Rightarrow> (Inr r, s1, t1))"

definition console_error :: "string \<Rightarrow> js_error \<Rightarrow> unit prog" where
  "console_error tag err = emit (ConsoleError tag err)"


section \<open>lib/redis.js\<close>

text \<open>
  Every store request goes over HTTP and throws when the store answers with an error (or the
  request fails); \<open>kv_error\<close> is that error, when the store is failing. The request is
  part of the trace either way. \<^verbatim>\<open>getJson\<close> returns null for an absent key.
\<close>

definition redis_request :: "env \<Rightarrow> effect \<Rightarrow> unit prog" where
  "redis_request e ev =
     pbind (emit ev) (\<lambda>_. case kv_error e of Some err \<Rightarrow> pthrow err | None \<Rightarrow> pret ())"

definition redis_getJson :: "env \<Rightarrow> string \<Rightarrow> session option prog" where
  "redis_getJson e sid =
     pbind (redis_request e (KvGet (''session:'' @ sid)))
       (\<lambda>_ s. (Inr (map_option fst (sessions s sid)), s, []))"

definition put_session :: "string \<Rightarrow> session \<Rightarrow> nat \<Rightarrow> kv \<Rightarrow> kv" where
  "put_session sid v exSeconds s = s\<lparr>sessions := (sessions s)(sid \<mapsto> (v, exSeconds))\<rparr>"

definition redis_set_session :: "env \<Rightarrow> string \<Rightarrow> session \<Rightarrow> nat \<Rightarrow> unit prog" where
  "redis_set_session e sid v exSeconds =
     pbind (redis_request e (KvSetSession (''session:'' @ sid) v exSeconds))
       (\<lambda>_ s. (Inr (), put_session sid v exSeconds s, []))"

definition redis_set_address :: "env \<Rightarrow> address \<Rightarrow> string \<Rightarrow> nat \<Rightarrow> unit prog" where
  "redis_set_address e addr v exSeconds =
     pbind (redis_request e (KvSetAddress (''address:'' @ addr) v exSeconds))
       (\<lambda>_ s. (Inr (), s\<lparr>addresses := (addresses s)(addr \<mapsto> (v, exSeconds))\<rparr>, []))"

text \<open>\<^verbatim>\<open>INCR\<close>: the store adds one atomically and answers with the new value.\<close>

definition redis_incr :: "env \<Rightarrow> int prog" where
  "redis_incr e =
     pbind (redis_request e (KvIncr ''day-after-day:session-counter''))
       (\<lambda>_ s. (Inr (counter s + 1), s\<lparr>counter := counter s + 1\<rparr>, []))"


section \<open>lib/wallet.js\<close>

definition apostrophe :: char where
  "apostrophe = CHR 0x27"

text \<open>The BIP44 path \<^verbatim>\<open>m/44'/501'/<index>'/0'\<close>.\<close>

definition derivation_path :: "int \<Rightarrow> string" where
  "derivation_path index =
     ''m/44'' @ [apostrophe] @ ''/501'' @ [apostrophe] @ ''/'' @ show_int index
       @ [apostrophe] @ ''/0'' @ [apostrophe]"

definition deriveKeypair :: "env \<Rightarrow> int \<Rightarrow> js_error + keypair" where
  "deriveKeypair e index =
     (case MASTER_SEED_PHRASE e of
        None \<Rightarrow> Inl (new_Error ''MASTER_SEED_PHRASE not configured'')
      | Some mnemonic \<Rightarrow>
          if mnemonic = [] then Inl (new_Error ''MASTER_SEED_PHRASE not configured'')
          else hd_derive e mnemonic (derivation_path index))"

definition getMasterKeypair :: "env \<Rightarrow> js_error + keypair" where
  "getMasterKeypair e = deriveKeypair e 0"

definition getSessionKeypair :: "env \<Rightarrow> int \<Rightarrow> js_error + keypair" where
  "getSessionKeypair e idx = deriveKeypair e (1000 + idx)"


section \<open>lib/solana.js\<close>

definition USDC_MINT :: string where
  "USDC_MINT = ''EPjFWdd5AufqSSqeM2qN1xzybapC8G4wEGGkZwyTDt1v''"

definition REQUIRED_USDC :: nat where
  "REQUIRED_USDC = 2250000"

text \<open>\<^verbatim>\<open>Math.ceil(ATA_INIT_SOL * LAMPORTS_PER_SOL)\<close> with 0.003 SOL.\<close>

definition ATA_INIT_LAMPORTS :: int where
  "ATA_INIT_LAMPORTS = 3000000"

text \<open>\<^verbatim>\<open>new Connection(process.env.SOLANA_RPC_URL, 'confirmed')\<close> throws on an unusable
  endpoint.\<close>

definition getConnection :: "env \<Rightarrow> js_error + unit" where
  "getConnection e = (case connection_error e of Some err \<Rightarrow> Inl err | None \<Rightarrow> Inr ())"

text \<open>A missing token account (or any other failure of the read) is balance 0.\<close>

definition getUsdcBalance :: "env \<Rightarrow> address \<Rightarrow> nat prog" where
  "getUsdcBalance e walletPublicKey =
     ptry (pbind (emit (RpcTokenAccount walletPublicKey))
             (\<lambda>_. of_result (token_account e walletPublicKey)))
          (\<lambda>_. pret 0)"

definition getSignaturesForAddress :: "env \<Rightarrow> address \<Rightarrow> nat \<Rightarrow> signature list prog" where
  "getSignaturesForAddress e addr limit =
     pbind (emit (RpcSignatures addr limit))
       (\<lambda>_. pbind (of_result (signatures_for e addr)) (\<lambda>sigs. pret (take limit sigs)))"

definition getTransaction :: "env \<Rightarrow> signature \<Rightarrow> ledger_tx option prog" where
  "getTransaction e sg =
     pbind (emit (RpcTransaction sg)) (\<lambda>_. of_result (transaction_of e sg))"

text \<open>The inner loop of \<^verbatim>\<open>findUsdcSender\<close> over \<^verbatim>\<open>preBalances\<close>: the owner of the first
  USDC account whose balance went down and that the receiver does not own.\<close>

fun scan_pre_balances ::
  "address \<Rightarrow> token_balance list \<Rightarrow> token_balance list \<Rightarrow> address option" where
  "scan_pre_balances receiver postBalances [] = None"
| "scan_pre_balances receiver postBalances (pre # rest) =
     (if tb_mint pre \<noteq> USDC_MINT then scan_pre_balances receiver postBalances rest
      else
        let post = find (\<lambda>p. accountIndex p = accountIndex pre) postBalances;
            preAmt = tb_amount pre;
            postAmt = (case post of Some p \<Rightarrow> tb_amount p | None \<Rightarrow> 0)
        in if preAmt > postAmt \<and> tb_owner pre \<noteq> receiver then Some (tb_owner pre)
           else scan_pre_balances receiver postBalances rest)"

text \<open>The outer loop over the signatures, newest first.\<close>

fun scan_signatures :: "env \<Rightarrow> address \<Rightarrow> signature list \<Rightarrow> address option prog" where
  "scan_signatures e receiver [] = pret None"
| "scan_signatures e receiver (sg # sigs) =
     pbind (getTransaction e sg) (\<lambda>tx.
       case tx of
         None \<Rightarrow> scan_signatures e receiver sigs
       | Some t \<Rightarrow>
           (case scan_pre_balances receiver (postTokenBalances t) (preTokenBalances t) of
              Some owner \<Rightarrow> pret (Some owner)
            | None \<Rightarrow> scan_signatures e receiver sigs))"

definition findUsdcSender :: "env \<Rightarrow> address \<Rightarrow> address option prog" where
  "findUsdcSender e receiverPublicKey =
     ptry (pbind (getSignaturesForAddress e receiverPublicKey 10)
             (scan_signatures e receiverPublicKey))
          (\<lambda>err. pbind (console_error ''findUsdcSender error:'' err) (\<lambda>_. pret None))"

definition sendAndConfirmTransaction :: "env \<Rightarrow> chain_tx \<Rightarrow> signature prog" where
  "sendAndConfirmTransaction e tx =
     pbind (emit (Submit tx)) (\<lambda>_. of_result (send_result e tx))"

definition fundDerivedWallet :: "env \<Rightarrow> keypair \<Rightarrow> address \<Rightarrow> signature prog" where
  "fundDerivedWallet e masterKeypair derivedPublicKey =
     sendAndConfirmTransaction e
       (SystemTransfer (publicKey masterKeypair) derivedPublicKey ATA_INIT_LAMPORTS)"

text \<open>\<^verbatim>\<open>getOrCreateAssociatedTokenAccount\<close>, paid by the master wallet.\<close>

definition initUsdcAta :: "env \<Rightarrow> keypair \<Rightarrow> keypair \<Rightarrow> address prog" where
  "initUsdcAta e masterKeypair derivedKeypair =
     pbind (emit (RpcEnsureAta (publicKey masterKeypair) (publicKey derivedKeypair)))
       (\<lambda>_. of_result (ensure_ata e (publicKey masterKeypair) (publicKey derivedKeypair)))"

definition sweepUsdc :: "env \<Rightarrow> keypair \<Rightarrow> address \<Rightarrow> signature option prog" where
  "sweepUsdc e derivedKeypair masterPublicKey =
     pbind (getUsdcBalance e (publicKey derivedKeypair)) (\<lambda>balance.
       if balance = 0 then pret None
       else pbind (sendAndConfirmTransaction e
                     (TokenTransfer (publicKey derivedKeypair) masterPublicKey balance))
              (\<lambda>sg. pret (Some sg)))"

definition getBalance :: "env \<Rightarrow> address \<Rightarrow> nat prog" where
  "getBalance e addr = pbind (emit (RpcBalance addr)) (\<lambda>_. of_result (lamports_of e addr))"

definition sweepSol :: "env \<Rightarrow> keypair \<Rightarrow> address \<Rightarrow> signature option prog" where
  "sweepSol e derivedKeypair masterPublicKey =
     pbind (getBalance e (publicKey derivedKeypair)) (\<lambda>balance.
       let fee = 5000;
           toSend = int balance - fee
       in if toSend \<le> 0 then pret None
          else pbind (sendAndConfirmTransaction e
                        (SystemTransfer (publicKey derivedKeypair) masterPublicKey toSend))
                 (\<lambda>sg. pret (Some sg)))"


section \<open>api/poll/[sessionId].js\<close>

record poll_request =
  pr_method :: string
  pr_sessionId :: "string option"
  pr_test :: "string option"

text \<open>
  The JSON bodies the handlers answer with. Constant display strings and the two explorer
  links (functions of \<open>mintAddress\<close>) are left out; \<open>Needs_funding_body\<close> carries the
  digits captured from the error message, which the source then formats as SOL.
\<close>

datatype body =
    Empty_body
  | Error_body string
  | Minting_body
  | Stored_minted_body "address option" "signature option"
  | Expired_body
  | Pending_body address nat nat  \<comment> \<open>paymentAddress, requiredUsdc, receivedUsdc\<close>
  | Needs_funding_body "string option" "address option"  \<comment> \<open>needed, buyerWallet\<close>
  | Paid_body string "address option"  \<comment> \<open>error, buyerWallet\<close>
  | Minted_body "address option" "signature option" "address option"
      \<comment> \<open>mintAddress, mintSignature, buyerWallet\<close>
  | Created_body string address nat int
      \<comment> \<open>sessionId, paymentAddress, requiredUsdc, expiresAt\<close>

datatype response = Response nat body

text \<open>The \<^verbatim>\<open>status\<close> field of a body, when it has one.\<close>

fun body_status :: "body \<Rightarrow> string option" where
  "body_status Minting_body = Some ''minting''"
| "body_status (Stored_minted_body a g) = Some ''minted''"
| "body_status Expired_body = Some ''expired''"
| "body_status (Pending_body a r b) = Some ''pending''"
| "body_status (Needs_funding_body n b) = Some ''needs_funding''"
| "body_status (Paid_body m b) = Some ''paid''"
| "body_status (Minted_body a g b) = Some ''minted''"
| "body_status other = None"

definition json_get :: "json \<Rightarrow> string \<Rightarrow> json option" where
  "json_get v k = (case v of JObj kvs \<Rightarrow> map_of kvs k | _ \<Rightarrow> None)"

text \<open>
  \<^verbatim>\<open>mintNft\<close> builds the name and attributes from \<^verbatim>\<open>session.metadata\<close>; the document itself
  only goes to the pinning service, but reading it can throw: on a null metadata, and on a
  truthy \<^verbatim>\<open>mode\<close> that is not a string (\<^verbatim>\<open>meta.mode.charAt\<close>).
\<close>

definition read_metadata :: "session \<Rightarrow> js_error + unit" where
  "read_metadata session =
     (case metadata session of
        JNull \<Rightarrow> Inl (JsError ''TypeError'' ''Cannot read properties of null'')
      | meta \<Rightarrow>
          (case json_get meta ''mode'' of
             None \<Rightarrow> Inr ()
           | Some (JStr m) \<Rightarrow> Inr ()
           | Some m \<Rightarrow>
               if truthy m then Inl (JsError ''TypeError'' ''meta.mode.charAt is not a function'')
               else Inr ()))"

definition pinFileToIPFS :: "env \<Rightarrow> pin_data prog" where
  "pinFileToIPFS e = pbind (emit PinFile) (\<lambda>_. of_result (pin_result e))"

definition mintNft :: "env \<Rightarrow> session \<Rightarrow> address option \<Rightarrow> mint_result prog" where
  "mintNft e session buyer =
     pbind (of_result (getMasterKeypair e)) (\<lambda>masterKeypair.
     pbind (of_result (read_metadata session)) (\<lambda>_.
       let pinataJwt = trim (case PINATA_JWT e of None \<Rightarrow> [] | Some j \<Rightarrow> j)
       in if pinataJwt = [] then pthrow (new_Error ''PINATA_JWT not configured'')
          else
            pbind (pinFileToIPFS e) (\<lambda>pinData.
              case IpfsHash pinData of
                None \<Rightarrow>
                  pthrow (new_Error (''Pinata metadata upload failed: '' @ pin_json pinData))
              | Some h \<Rightarrow>
                  if h = [] then
                    pthrow (new_Error (''Pinata metadata upload failed: '' @ pin_json pinData))
                  else
                    let metadataUri = ''https://gateway.pinata.cloud/ipfs/'' @ h
                    in pbind (of_result (getConnection e)) (\<lambda>_.
                         let tokenOwner =
                               (case buyer of
                                  None \<Rightarrow> publicKey masterKeypair
                                | Some b \<Rightarrow> if b = [] then publicKey masterKeypair else b)
                         in pbind (sendAndConfirmTransaction e
                                     (CreateNft (new_mint e) tokenOwner metadataUri))
                              (\<lambda>sg. pret \<lparr>mr_mintAddress = new_mint e, mr_signature = sg,
                                            mr_metadataUri = metadataUri\<rparr>)))))"

text \<open>\<^verbatim>\<open>mintErr.message || String(mintErr)\<close>.\<close>

definition errMsg :: "js_error \<Rightarrow> string" where
  "errMsg mintErr = (if err_message mintErr \<noteq> [] then err_message mintErr else js_String mintErr)"

definition isInsufficientSol :: "js_error \<Rightarrow> bool" where
  "isInsufficientSol mintErr =
     (str_includes (errMsg mintErr) ''insufficient lamports''
      \<or> str_includes (errMsg mintErr) ''Insufficient lamports'')"

text \<open>Lines 76 to 100, the \<^verbatim>\<open>catch (mintErr)\<close> block, for the session object as it is
  when the error is caught.\<close>

definition mint_failed ::
  "env \<Rightarrow> string \<Rightarrow> session \<Rightarrow> address option \<Rightarrow> js_error \<Rightarrow> response prog" where
  "mint_failed e sid session buyer mintErr =
     pbind (console_error ''Mint error:'' mintErr) (\<lambda>_.
       if isInsufficientSol mintErr then
         pbind (redis_set_session e sid (session\<lparr>status := ''needs_funding''\<rparr>) (60 * 60 * 24))
           (\<lambda>_. pret (Response 200 (Needs_funding_body (match_need (errMsg mintErr)) buyer)))
       else
         pbind (redis_set_session e sid (session\<lparr>status := ''paid''\<rparr>) (60 * 60 * 24))
           (\<lambda>_. pret (Response 200 (Paid_body (errMsg mintErr) buyer))))"

text \<open>Lines 104 to 108, the body of the sweep \<^verbatim>\<open>try\<close> block.\<close>

definition sweep_funds :: "env \<Rightarrow> string \<Rightarrow> session \<Rightarrow> keypair \<Rightarrow> unit prog" where
  "sweep_funds e sid session sessionKeypair =
     pbind (of_result (getMasterKeypair e)) (\<lambda>masterKeypair.
     pbind (sweepUsdc e sessionKeypair (publicKey masterKeypair)) (\<lambda>sg.
     pbind (sweepSol e sessionKeypair (publicKey masterKeypair)) (\<lambda>_.
     redis_set_session e sid (session\<lparr>sweepSignature := sg, status := ''swept''\<rparr>)
       (60 * 60 * 24))))"

text \<open>Lines 27 to 61: load the session, answer from the stored status or the clock, read the
  balance. The result is either the response already sent or the loaded session and its
  keypair, with which the handler goes on.\<close>

definition poll_check ::
  "env \<Rightarrow> poll_request \<Rightarrow> string \<Rightarrow> (response + session \<times> keypair) prog" where
  "poll_check e req sid =
     pbind (redis_getJson e sid) (\<lambda>loaded.
       case loaded of
         None \<Rightarrow> pret (Inl (Response 404 (Error_body ''Session not found or expired'')))
       | Some session \<Rightarrow>
           if status session = ''minting'' then pret (Inl (Response 200 Minting_body))
           else if status session = ''minted'' then
             pret (Inl (Response 200
                     (Stored_minted_body (mintAddress session) (mintSignature session))))
           else if now e > expiresAt session then pret (Inl (Response 200 Expired_body))
           else
             pbind (of_result (getConnection e)) (\<lambda>_.
             pbind (of_result (getSessionKeypair e (sessionIndex session))) (\<lambda>sessionKeypair.
               let testMode = (pr_test req = Some ''true'')
               in pbind (if testMode then pret REQUIRED_USDC
                         else getUsdcBalance e (publicKey sessionKeypair)) (\<lambda>balance.
                    if \<not> testMode \<and> balance < REQUIRED_USDC then
                      pret (Inl (Response 200
                              (Pending_body (paymentAddress session) REQUIRED_USDC balance)))
                    else pret (Inr (session, sessionKeypair))))))"

text \<open>Lines 63 to 120: write \<^verbatim>\<open>minting\<close>, find the sender, mint, sweep.\<close>

definition poll_settle :: "env \<Rightarrow> string \<Rightarrow> session \<Rightarrow> keypair \<Rightarrow> response prog" where
  "poll_settle e sid loaded sessionKeypair =
     (let session1 = loaded\<lparr>status := ''minting''\<rparr>
      in pbind (redis_set_session e sid session1 (60 * 60)) (\<lambda>_.
         pbind (findUsdcSender e (publicKey sessionKeypair)) (\<lambda>buyer.
           let session2 = session1\<lparr>buyerWallet := buyer\<rparr>
           in pbind (redis_set_session e sid session2 (60 * 60)) (\<lambda>_.
              pbind (attempt (mintNft e session2 buyer)) (\<lambda>minted.
                case minted of
                  Inl mintErr \<Rightarrow> mint_failed e sid session2 buyer mintErr
                | Inr mintResult \<Rightarrow>
                    let session3 = session2\<lparr>status := ''minted'',
                                     mintAddress := Some (mr_mintAddress mintResult),
                                     mintSignature := Some (mr_signature mintResult)\<rparr>
                    in pbind (attempt (redis_set_session e sid session3 (60 * 60 * 24))) (\<lambda>written.
                         case written of
                           Inl mintErr \<Rightarrow> mint_failed e sid session3 buyer mintErr
                         | Inr _ \<Rightarrow>
                             pbind (ptry (sweep_funds e sid session3 sessionKeypair)
                                      (console_error ''Sweep error (non-fatal):''))
                               (\<lambda>_. pret (Response 200
                                       (Minted_body (mintAddress session3)
                                          (mintSignature session3) buyer)))))))))"

definition poll_handler :: "env \<Rightarrow> poll_request \<Rightarrow> response prog" where
  "poll_handler e req =
     (if pr_method req = ''OPTIONS'' then pret (Response 200 Empty_body)
      else if pr_method req \<noteq> ''GET'' then pret (Response 405 (Error_body ''Method not allowed''))
      else
        case pr_sessionId req of
          None \<Rightarrow> pret (Response 400 (Error_body ''Missing sessionId''))
        | Some sid \<Rightarrow>
            if sid = [] then pret (Response 400 (Error_body ''Missing sessionId''))
            else
              ptry (pbind (poll_check e req sid) (\<lambda>checked.
                      case checked of
                        Inl sent \<Rightarrow> pret sent
                      | Inr (session, sessionKeypair) \<Rightarrow> poll_settle e sid session sessionKeypair))
                   (\<lambda>err. pbind (console_error ''Poll error:'' err)
                            (\<lambda>_. pret (Response 500 (Error_body (err_message err))))))"


section \<open>api/session.js\<close>

record session_request =
  sr_method :: string
  sr_body :: "json option"

definition SESSION_TTL :: nat where
  "SESSION_TTL = 60 * 30"

text \<open>Lines 27 to 80: allocate the index, derive the keys, store the session, fund the wallet.\<close>

definition create_session :: "env \<Rightarrow> json \<Rightarrow> json \<Rightarrow> response prog" where
  "create_session e ot md =
     pbind (redis_incr e) (\<lambda>idx.
     pbind (of_result (getMasterKeypair e)) (\<lambda>masterKeypair.
     pbind (of_result (getSessionKeypair e idx)) (\<lambda>sessionKeypair.
       let addr = publicKey sessionKeypair;
           sid = ''sess_'' @ show_int idx @ ''_'' @ show_int (now e);
           session =
             \<lparr>sessionId = sid, sessionIndex = idx, paymentAddress = addr,
              outputType = ot, metadata = md, status = ''pending'', createdAt = now e,
              expiresAt = now e + int SESSION_TTL * 1000, requiredUsdc = REQUIRED_USDC,
              buyerWallet = None, mintAddress = None, mintSignature = None,
              sweepSignature = None\<rparr>
       in pbind (redis_set_session e sid session SESSION_TTL) (\<lambda>_.
          pbind (redis_set_address e addr sid SESSION_TTL) (\<lambda>_.
          pbind (of_result (getConnection e)) (\<lambda>_.
          pbind (ptry (pbind (fundDerivedWallet e masterKeypair addr) (\<lambda>_.
                       pbind (initUsdcAta e masterKeypair sessionKeypair) (\<lambda>_. pret ())))
                      (console_error ''ATA init error:''))
            (\<lambda>_. pret (Response 200
                    (Created_body sid addr REQUIRED_USDC (expiresAt session))))))))))"

definition session_handler :: "env \<Rightarrow> session_request \<Rightarrow> response prog" where
  "session_handler e req =
     (if sr_method req = ''OPTIONS'' then pret (Response 200 Empty_body)
      else if sr_method req \<noteq> ''POST'' then
        pret (Response 405 (Error_body ''Method not allowed''))
      else
        ptry
          (case sr_body req of
             None \<Rightarrow> pthrow (JsError ''TypeError'' ''Cannot destructure property of req.body'')
           | Some JNull \<Rightarrow>
               pthrow (JsError ''TypeError'' ''Cannot destructure property of req.body'')
           | Some b \<Rightarrow>
               (case json_get b ''outputType'' of
                  None \<Rightarrow> pret (Response 400 (Error_body ''Missing outputType''))
                | Some ot \<Rightarrow>
                    if \<not> truthy ot then pret (Response 400 (Error_body ''Missing outputType''))
                    else
                      (case json_get b ''metadata'' of
                         None \<Rightarrow> pret (Response 400 (Error_body ''Missing metadata''))
                       | Some md \<Rightarrow>
                           if \<not> truthy md then
                             pret (Response 400 (Error_body ''Missing metadata''))
                           else create_session e ot md)))
          (\<lambda>err. pbind (console_error ''Session creation error:'' err)
                   (\<lambda>_. pret (Response 500 (Error_body (err_message err))))))"


section \<open>Reachable stores, classes of effects\<close>

text \<open>The store starts empty; it changes by the two handlers, under any environment and
  request, and by the expiry of a session or address key.\<close>

definition init_kv :: kv where
  "init_kv = \<lparr>sessions = Map.empty, addresses = Map.empty, counter = 0\<rparr>"

inductive reachable :: "kv \<Rightarrow> bool" where
  reach_init: "reachable init_kv"
| reach_create: "reachable s \<Longrightarrow> session_handler e req s = (r, s', t) \<Longrightarrow> reachable s'"
| reach_poll: "reachable s \<Longrightarrow> poll_handler e preq s = (r, s', t) \<Longrightarrow> reachable s'"
| reach_expire_session: "reachable s \<Longrightarrow> reachable (s\<lparr>sessions := (sessions s)(sid := None)\<rparr>)"
| reach_expire_address: "reachable s \<Longrightarrow> reachable (s\<lparr>addresses := (addresses s)(a := None)\<rparr>)"

definition trace_of :: "'r \<times> kv \<times> effect list \<Rightarrow> effect list" where
  "trace_of out = snd (snd out)"

text \<open>A computation that neither reads nor writes the store, and emits only effects of one
  class.\<close>

definition store_free :: "(effect \<Rightarrow> bool) \<Rightarrow> 'a prog \<Rightarrow> bool" where
  "store_free P m = (\<exists>r t. (\<forall>s. m s = (r, s, t)) \<and> list_all P t)"

fun is_scan_event :: "effect \<Rightarrow> bool" where
  "is_scan_event (RpcSignatures a n) = True"
| "is_scan_event (RpcTransaction sg) = True"
| "is_scan_event (ConsoleError tag err) = (tag = ''findUsdcSender error:'')"
| "is_scan_event other = False"

fun is_mint_event :: "effect \<Rightarrow> bool" where
  "is_mint_event PinFile = True"
| "is_mint_event (Submit (CreateNft m owner uri)) = True"
| "is_mint_event other = False"

fun is_transfer_event :: "effect \<Rightarrow> bool" where
  "is_transfer_event (RpcTokenAccount a) = True"
| "is_transfer_event (RpcBalance a) = True"
| "is_transfer_event (Submit (TokenTransfer a b n)) = True"
| "is_transfer_event (Submit (SystemTransfer a b n)) = True"
| "is_transfer_event other = False"

fun is_store_write :: "effect \<Rightarrow> bool" where
  "is_store_write (KvSetSession k v n) = True"
| "is_store_write (KvSetAddress k v n) = True"
| "is_store_write (KvIncr k) = True"
| "is_store_write other = False"

fun is_mint_submission :: "effect \<Rightarrow> bool" where
  "is_mint_submission (Submit (CreateNft m owner uri)) = True"
| "is_mint_submission other = False"

text \<open>The balance \<^verbatim>\<open>getUsdcBalance\<close> returns for a wallet.\<close>

definition usdc_balance :: "env \<Rightarrow> address \<Rightarrow> nat" where
  "usdc_balance e a = (case token_account e a of Inl err \<Rightarrow> 0 | Inr n \<Rightarrow> n)"

fun is_check_event :: "effect \<Rightarrow> bool" where
  "is_check_event (KvGet k) = True"
| "is_check_event (RpcTokenAccount a) = True"
| "is_check_event other = False"

text \<open>The \<^verbatim>\<open>status\<close> a handler reports to the caller.\<close>

fun reported_status :: "js_error + response \<Rightarrow> string option" where
  "reported_status (Inr (Response code b)) = body_status b"
| "reported_status (Inl err) = None"

text \<open>A computation that leaves an observation of the store as it was.\<close>

definition preserves :: "(kv \<Rightarrow> 'b) \<Rightarrow> 'a prog \<Rightarrow> bool" where
  "preserves f m = (\<forall>s r s' t. m s = (r, s', t) \<longrightarrow> f s' = f s)"

named_theorems run_simps


section \<open>Two polls of one session\<close>

text \<open>
  The handler from line 63 on, for an invocation whose check (lines 27 to 61) has returned
  normally; errors go to the handler's outer \<^verbatim>\<open>catch\<close>.
\<close>

definition poll_resume :: "env \<Rightarrow> string \<Rightarrow> response + session \<times> keypair \<Rightarrow> response prog" where
  "poll_resume e sid checked =
     ptry (case checked of
             Inl sent \<Rightarrow> pret sent
           | Inr (session, sessionKeypair) \<Rightarrow> poll_settle e sid session sessionKeypair)
          (\<lambda>err. pbind (console_error ''Poll error:'' err)
                   (\<lambda>_. pret (Response 500 (Error_body (err_message err)))))"

text \<open>
  Two invocations for the same session, as separate serverless processes that share only
  the store: both run their checks before either writes \<^verbatim>\<open>minting\<close>, then each goes on
  with the session object it loaded. The result is the combined trace, in order.
\<close>

definition interleaved_polls ::
  "env \<Rightarrow> poll_request \<Rightarrow> poll_request \<Rightarrow> string \<Rightarrow> kv \<Rightarrow> effect list" where
  "interleaved_polls e reqA reqB sid s =
     (case poll_check e reqA sid s of
        (Inl errA, s1, tA) \<Rightarrow> tA
      | (Inr checkedA, s1, tA) \<Rightarrow>
          (case poll_check e reqB sid s1 of
             (Inl errB, s2, tB) \<Rightarrow> tA @ tB
           | (Inr checkedB, s2, tB) \<Rightarrow>
               (case poll_resume e sid checkedA s2 of
                  (rA, s3, uA) \<Rightarrow>
                    (case poll_resume e sid checkedB s3 of
                       (rB, s4, uB) \<Rightarrow> tA @ tB @ uA @ uB))))"

text \<open>The same two invocations one after the other.\<close>

definition sequential_polls ::
  "env \<Rightarrow> poll_request \<Rightarrow> poll_request \<Rightarrow> kv \<Rightarrow> effect list" where
  "sequential_polls e reqA reqB s =
     (case poll_handler e reqA s of
        (rA, s1, tA) \<Rightarrow> (case poll_handler e reqB s1 of (rB, s2, tB) \<Rightarrow> tA @ tB))"


section \<open>The counterparty, as the specification words it\<close>

text \<open>
  What the specification says \<open>findCounterparty\<close> returns, in its words. An entry of a transaction's balances
  before \<^emph>\<open>sent\<close> when it is a USDC account whose balance after the transaction (0 when the
  account has no entry after) is lower and whose owner is not the receiver. The window is the
  transactions of the ten most recent signatures, newest first, that the ledger returns. The
  counterparty is the owner of the first sending entry of the first transaction of the
  window that has one.
\<close>

definition sent_from :: "address \<Rightarrow> token_balance list \<Rightarrow> token_balance \<Rightarrow> bool" where
  "sent_from receiver postBalances pre =
     (tb_mint pre = USDC_MINT
      \<and> tb_amount pre >
          (case find (\<lambda>p. accountIndex p = accountIndex pre) postBalances of
             Some p \<Rightarrow> tb_amount p
           | None \<Rightarrow> 0)
      \<and> tb_owner pre \<noteq> receiver)"

definition has_sender :: "address \<Rightarrow> ledger_tx \<Rightarrow> bool" where
  "has_sender receiver tx =
     list_ex (sent_from receiver (postTokenBalances tx)) (preTokenBalances tx)"

definition counterparty_spec :: "address \<Rightarrow> ledger_tx list \<Rightarrow> address option" where
  "counterparty_spec receiver txs =
     (case find (has_sender receiver) txs of
        None \<Rightarrow> None
      | Some tx \<Rightarrow>
          map_option tb_owner
            (find (sent_from receiver (postTokenBalances tx)) (preTokenBalances tx)))"

definition found_transaction :: "env \<Rightarrow> signature \<Rightarrow> ledger_tx option" where
  "found_transaction e sg = (case transaction_of e sg of Inr (Some tx) \<Rightarrow> Some tx | _ \<Rightarrow> None)"

definition scanned_window :: "env \<Rightarrow> address \<Rightarrow> ledger_tx list" where
  "scanned_window e receiver =
     (case signatures_for e receiver of
        Inl err \<Rightarrow> []
      | Inr sigs \<Rightarrow> List.map_filter (found_transaction e) (take 10 sigs))"


section \<open>Session creation, step by step\<close>

text \<open>The session record \<open>create_session\<close> builds, its id, the store it leaves, and the
  trace of the funding step (which catches its own errors).\<close>

definition new_session_id :: "env \<Rightarrow> int \<Rightarrow> string" where
  "new_session_id e idx = ''sess_'' @ show_int idx @ ''_'' @ show_int (now e)"

definition new_session :: "env \<Rightarrow> int \<Rightarrow> address \<Rightarrow> json \<Rightarrow> json \<Rightarrow> session" where
  "new_session e idx addr ot md =
     \<lparr>sessionId = new_session_id e idx, sessionIndex = idx, paymentAddress = addr,
      outputType = ot, metadata = md, status = ''pending'', createdAt = now e,
      expiresAt = now e + 1800000, requiredUsdc = REQUIRED_USDC, buyerWallet = None,
      mintAddress = None, mintSignature = None, sweepSignature = None\<rparr>"

definition registered :: "env \<Rightarrow> address \<Rightarrow> json \<Rightarrow> json \<Rightarrow> kv \<Rightarrow> kv" where
  "registered e addr ot md s =
     s\<lparr>sessions := (sessions s)(new_session_id e (counter s + 1)
                        \<mapsto> (new_session e (counter s + 1) addr ot md, 1800)),
       addresses := (addresses s)(addr \<mapsto> (new_session_id e (counter s + 1), 1800)),
       counter := counter s + 1\<rparr>"

definition fund_trace :: "env \<Rightarrow> keypair \<Rightarrow> keypair \<Rightarrow> effect list" where
  "fund_trace e mk kp =
     Submit (SystemTransfer (publicKey mk) (publicKey kp) ATA_INIT_LAMPORTS)
     # (case send_result e (SystemTransfer (publicKey mk) (publicKey kp) ATA_INIT_LAMPORTS) of
          Inl err \<Rightarrow> [ConsoleError ''ATA init error:'' err]
        | Inr sg \<Rightarrow>
            RpcEnsureAta (publicKey mk) (publicKey kp)
            # (case ensure_ata e (publicKey mk) (publicKey kp) of
                 Inl err \<Rightarrow> [ConsoleError ''ATA init error:'' err]
               | Inr a \<Rightarrow> []))"


section \<open>An example environment\<close>

text \<open>A concrete environment, store and request, on which the theorems below are
  instantiated: one pending session with index 1, paid in full by \<open>buyer\<close>.\<close>

definition demo_keys :: "string \<Rightarrow> string \<Rightarrow> js_error + keypair" where
  "demo_keys mnemonic path = Inr \<lparr>publicKey = path, secretKey = mnemonic\<rparr>"

definition demo_tx :: ledger_tx where
  "demo_tx =
     \<lparr>preTokenBalances =
        [\<lparr>accountIndex = 1, tb_mint = USDC_MINT, tb_owner = ''buyer'', tb_amount = 5000000\<rparr>],
      postTokenBalances =
        [\<lparr>accountIndex = 1, tb_mint = USDC_MINT, tb_owner = ''buyer'', tb_amount = 2750000\<rparr>]\<rparr>"

definition demo_env :: env where
  "demo_env =
     \<lparr>now = 5000, MASTER_SEED_PHRASE = Some ''seed'', PINATA_JWT = Some ''jwt'',
      hd_derive = demo_keys, kv_error = None, connection_error = None,
      token_account = (\<lambda>a. Inr 2250000),
      signatures_for = (\<lambda>a. Inr [''sigA'']),
      transaction_of = (\<lambda>sg. Inr (Some demo_tx)),
      lamports_of = (\<lambda>a. Inr 3000000),
      send_result = (\<lambda>tx. Inr ''txsig''),
      ensure_ata = (\<lambda>payer owner. Inr owner),
      pin_result = Inr \<lparr>IpfsHash = Some ''cid'', pin_json = ''{}''\<rparr>,
      new_mint = ''mint1''\<rparr>"

definition demo_session :: session where
  "demo_session =
     \<lparr>sessionId = ''s1'', sessionIndex = 1, paymentAddress = derivation_path 1001,
      outputType = JStr ''photo'', metadata = JObj [], status = ''pending'', createdAt = 0,
      expiresAt = 1800000, requiredUsdc = 2250000, buyerWallet = None, mintAddress = None,
      mintSignature = None, sweepSignature = None\<rparr>"

definition demo_kv :: kv where
  "demo_kv = \<lparr>sessions = [''s1'' \<mapsto> (demo_session, 1800)], addresses = Map.empty, counter = 1\<rparr>"

definition demo_poll :: poll_request where
  "demo_poll = \<lparr>pr_method = ''GET'', pr_sessionId = Some ''s1'', pr_test = None\<rparr>"

text \<open>The keypair of the example session, and a request to create a session.\<close>

definition demo_keypair :: keypair where
  "demo_keypair = \<lparr>publicKey = derivation_path 1001, secretKey = ''seed''\<rparr>"

definition demo_create :: session_request where
  "demo_create =
     \<lparr>sr_method = ''POST'',
      sr_body = Some (JObj [(''outputType'', JStr ''photo''), (''metadata'', JObj [])])\<rparr>"

text \<open>The example poll with the test flag.\<close>

definition test_poll :: poll_request where
  "test_poll = demo_poll\<lparr>pr_test := Some ''true''\<rparr>"



text \<open>The sweep fails: the lamport balance of the escrow wallet cannot be read.\<close>

definition sweep_fail_env :: env where
  "sweep_fail_env = demo_env\<lparr>lamports_of := (\<lambda>a. Inl (new_Error ''rpc unavailable''))\<rparr>"

text \<open>A session whose mint failed earlier, polled after its \<open>expiresAt\<close>.\<close>

definition paid_session :: session where
  "paid_session = demo_session\<lparr>status := ''paid'', buyerWallet := Some ''buyer''\<rparr>"

definition paid_kv :: kv where
  "paid_kv = \<lparr>sessions = [''s1'' \<mapsto> (paid_session, 86400)], addresses = Map.empty, counter = 1\<rparr>"

definition late_env :: env where
  "late_env = demo_env\<lparr>now := 1800001\<rparr>"

text \<open>The buyer has sent less than the price.\<close>

definition underpaid_env :: env where
  "underpaid_env = demo_env\<lparr>token_account := (\<lambda>a. Inr 1000000)\<rparr>"

text \<open>The record a fully successful poll of the example session leaves in the store, and
  the ledger after the sweep has emptied the escrow account.\<close>

definition swept_session :: session where
  "swept_session =
     demo_session\<lparr>buyerWallet := Some ''buyer'', mintAddress := Some ''mint1'',
                  mintSignature := Some ''txsig'', sweepSignature := Some ''txsig'',
                  status := ''swept''\<rparr>"

definition swept_kv :: kv where
  "swept_kv = put_session ''s1'' swept_session 86400 demo_kv"

definition emptied_env :: env where
  "emptied_env = demo_env\<lparr>token_account := (\<lambda>a. Inr 0)\<rparr>"

text \<open>An escrow wallet that holds no USDC and exactly the fee buffer in lamports.\<close>

definition dust_env :: env where
  "dust_env = demo_env\<lparr>token_account := (\<lambda>a. Inr 0), lamports_of := (\<lambda>a. Inr 5000)\<rparr>"

text \<open>A ledger with no transaction for the escrow account.\<close>

definition quiet_env :: env where
  "quiet_env = demo_env\<lparr>signatures_for := (\<lambda>a. Inr [])\<rparr>"

text \<open>A master wallet that cannot pay for the funding transfer.\<close>

definition unfunded_env :: env where
  "unfunded_env = demo_env\<lparr>send_result := (\<lambda>tx. Inl (new_Error ''insufficient funds''))\<rparr>"


section \<open>Running the model\<close>

lemma pret_run [run_simps]: "pret x s = (Inr x, s, [])" by (simp add: pret_def)
lemma pthrow_run [run_simps]: "pthrow err s = (Inl err, s, [])" by (simp add: pthrow_def)
lemma of_result_run [run_simps]: "of_result r s = (r, s, [])" by (simp add: of_result_def)
lemma emit_run [run_simps]: "emit ev s = (Inr (), s, [ev])" by (simp add: emit_def)
lemma console_error_run [run_simps]: "console_error tag err s = (Inr (), s, [ConsoleError tag err])"
  by (simp add: console_error_def emit_def)

lemma pbind_Inr: "m s = (Inr x, s1, t1) \<Longrightarrow> pbind m f s = (case f x s1 of (r, s2, t2) \<Rightarrow> (r, s2, t1 @ t2))"
  by (simp add: pbind_def)
lemma pbind_Inl: "m s = (Inl err, s1, t1) \<Longrightarrow> pbind m f s = (Inl err, s1, t1)"
  by (simp add: pbind_def)
lemma ptry_Inr: "m s = (Inr x, s1, t1) \<Longrightarrow> ptry m h s = (Inr x, s1, t1)"
  by (simp add: ptry_def)
lemma ptry_Inl: "m s = (Inl err, s1, t1) \<Longrightarrow> ptry m h s = (case h err s1 of (r, s2, t2) \<Rightarrow> (r, s2, t1 @ t2))"
  by (simp add: ptry_def)
lemma attempt_run: "m s = (r, s1, t1) \<Longrightarrow> attempt m s = (Inr r, s1, t1)"
  by (simp add: attempt_def)

lemma put_session_twice [simp]:
  "put_session sid v ttl (put_session sid v' ttl' s) = put_session sid v ttl s"
  by (simp add: put_session_def)

lemma sessions_put_session [simp]:
  "sessions (put_session sid v ttl s) = (sessions s)(sid \<mapsto> (v, ttl))"
  by (simp add: put_session_def)

lemma counter_put_session [simp]: "counter (put_session sid v ttl s) = counter s"
  by (simp add: put_session_def)

lemma redis_getJson_ok:
  "kv_error e = None \<Longrightarrow> redis_getJson e sid s = (Inr (map_option fst (sessions s sid)), s, [KvGet (''session:'' @ sid)])"
  by (simp add: redis_getJson_def redis_request_def pbind_def run_simps)

lemma redis_getJson_fail:
  "kv_error e = Some err \<Longrightarrow> redis_getJson e sid s = (Inl err, s, [KvGet (''session:'' @ sid)])"
  by (simp add: redis_getJson_def redis_request_def pbind_def run_simps)

lemma redis_set_session_ok:
  "kv_error e = None \<Longrightarrow> redis_set_session e sid v ttl s =
     (Inr (), put_session sid v ttl s, [KvSetSession (''session:'' @ sid) v ttl])"
  by (simp add: redis_set_session_def redis_request_def pbind_def run_simps)

lemma store_freeI: "(\<And>s. m s = (r, s, t)) \<Longrightarrow> list_all P t \<Longrightarrow> store_free P m"
  unfolding store_free_def by blast

lemma store_free_pret [simp]: "store_free P (pret x)"
  by (rule store_freeI[where t="[]"]) (simp_all add: run_simps)
lemma store_free_pthrow [simp]: "store_free P (pthrow x)"
  by (rule store_freeI[where t="[]"]) (simp_all add: run_simps)
lemma store_free_of_result [simp]: "store_free P (of_result x)"
  by (rule store_freeI[where t="[]"]) (simp_all add: run_simps)
lemma store_free_emit: "P ev \<Longrightarrow> store_free P (emit ev)"
  by (rule store_freeI[where t="[ev]"]) (simp_all add: run_simps)

lemma store_free_pbind:
  assumes "store_free P m" and "\<And>x. store_free P (f x)"
  shows "store_free P (pbind m f)"
proof -
  from assms(1) obtain r t where m: "\<And>s. m s = (r, s, t)" and t: "list_all P t"
    unfolding store_free_def by blast
  show ?thesis
  proof (cases r)
    case (Inl err)
    then have "\<And>s. pbind m f s = (Inl err, s, t)" using m by (simp add: pbind_def)
    then show ?thesis using t by (rule store_freeI)
  next
    case (Inr x)
    from assms(2)[of x] obtain r2 t2 where f: "\<And>s. f x s = (r2, s, t2)" and t2: "list_all P t2"
      unfolding store_free_def by blast
    have "\<And>s. pbind m f s = (r2, s, t @ t2)" using m f Inr by (simp add: pbind_def)
    then show ?thesis using t t2 by (intro store_freeI[where t="t @ t2"]) simp_all
  qed
qed

lemma store_free_ptry:
  assumes "store_free P m" and "\<And>x. store_free P (h x)"
  shows "store_free P (ptry m h)"
proof -
  from assms(1) obtain r t where m: "\<And>s. m s = (r, s, t)" and t: "list_all P t"
    unfolding store_free_def by blast
  show ?thesis
  proof (cases r)
    case (Inr x)
    then have "\<And>s. ptry m h s = (Inr x, s, t)" using m by (simp add: ptry_def)
    then show ?thesis using t by (rule store_freeI)
  next
    case (Inl err)
    from assms(2)[of err] obtain r2 t2 where f: "\<And>s. h err s = (r2, s, t2)" and t2: "list_all P t2"
      unfolding store_free_def by blast
    have "\<And>s. ptry m h s = (r2, s, t @ t2)" using m f Inl by (simp add: ptry_def)
    then show ?thesis using t t2 by (intro store_freeI[where t="t @ t2"]) simp_all
  qed
qed

lemma store_free_attempt: "store_free P m \<Longrightarrow> store_free P (attempt m)"
  unfolding store_free_def attempt_def by (auto split: prod.splits)

lemma store_free_getTransaction: "store_free is_scan_event (getTransaction e sg)"
  unfolding getTransaction_def by (auto intro!: store_free_pbind store_free_emit)

lemma store_free_scan_signatures: "store_free is_scan_event (scan_signatures e receiver sigs)"
proof (induction sigs)
  case Nil
  show ?case by simp
next
  case (Cons sg sigs)
  show ?case
    unfolding scan_signatures.simps
    by (rule store_free_pbind[OF store_free_getTransaction])
       (auto split: option.splits intro: Cons.IH)
qed

lemma store_free_findUsdcSender: "store_free is_scan_event (findUsdcSender e receiver)"
  unfolding findUsdcSender_def getSignaturesForAddress_def console_error_def
  by (auto intro!: store_free_ptry store_free_pbind store_free_emit store_free_scan_signatures)

lemma findUsdcSender_never_throws: "fst (findUsdcSender e receiver s) \<noteq> Inl err"
  unfolding findUsdcSender_def ptry_def pbind_def by (auto simp: run_simps split: prod.splits sum.splits)

lemma store_free_mintNft: "store_free is_mint_event (mintNft e session buyer)"
  unfolding mintNft_def pinFileToIPFS_def sendAndConfirmTransaction_def Let_def
  by (auto split: option.splits intro!: store_free_pbind store_free_emit)

lemma store_free_getUsdcBalance: "store_free is_transfer_event (getUsdcBalance e a)"
  unfolding getUsdcBalance_def
  by (auto intro!: store_free_ptry store_free_pbind store_free_emit)

lemma store_free_sweepUsdc: "store_free is_transfer_event (sweepUsdc e kp m)"
  unfolding sweepUsdc_def sendAndConfirmTransaction_def
  by (auto intro!: store_free_pbind store_free_emit store_free_getUsdcBalance)

lemma store_free_sweepSol: "store_free is_transfer_event (sweepSol e kp m)"
  unfolding sweepSol_def sendAndConfirmTransaction_def getBalance_def Let_def
  by (auto intro!: store_free_pbind store_free_emit)

lemma store_freeE:
  assumes "store_free P m"
  obtains r t where "\<And>s. m s = (r, s, t)" and "list_all P t"
  using assms unfolding store_free_def by blast

lemma sweep_funds_outcome:
  assumes kv: "kv_error e = None"
  obtains (sweep_error) tw err where
      "list_all is_transfer_event tw"
      "\<And>s. sweep_funds e sid sess kp s = (Inl err, s, tw)"
    | (swept) tw sg where
      "list_all is_transfer_event tw"
      "\<And>s. sweep_funds e sid sess kp s =
         (Inr (), put_session sid (sess\<lparr>sweepSignature := sg, status := ''swept''\<rparr>) 86400 s,
          tw @ [KvSetSession (''session:'' @ sid) (sess\<lparr>sweepSignature := sg, status := ''swept''\<rparr>) 86400])"
proof (cases "getMasterKeypair e")
  case (Inl err)
  then have "\<And>s. sweep_funds e sid sess kp s = (Inl err, s, [])"
    by (simp add: sweep_funds_def pbind_def run_simps)
  then show ?thesis using sweep_error[of "[]" err] by simp
next
  case (Inr mk)
  obtain ru tu where u: "\<And>s. sweepUsdc e kp (publicKey mk) s = (ru, s, tu)"
    and tu: "list_all is_transfer_event tu"
    using store_free_sweepUsdc[of e kp "publicKey mk"] unfolding store_free_def by blast
  obtain rs ts where l: "\<And>s. sweepSol e kp (publicKey mk) s = (rs, s, ts)"
    and ts: "list_all is_transfer_event ts"
    using store_free_sweepSol[of e kp "publicKey mk"] unfolding store_free_def by blast
  show ?thesis
  proof (cases ru)
    case (Inl err)
    then have "\<And>s. sweep_funds e sid sess kp s = (Inl err, s, tu)"
      using Inr u by (simp add: sweep_funds_def pbind_def run_simps)
    then show ?thesis using sweep_error tu by blast
  next
    case ru: (Inr sg)
    show ?thesis
    proof (cases rs)
      case (Inl err)
      then have "\<And>s. sweep_funds e sid sess kp s = (Inl err, s, tu @ ts)"
        using Inr u l ru by (simp add: sweep_funds_def pbind_def run_simps)
      then show ?thesis using sweep_error[of "tu @ ts" err] tu ts by simp
    next
      case rs: (Inr sg2)
      have "\<And>s. sweep_funds e sid sess kp s =
         (Inr (), put_session sid (sess\<lparr>sweepSignature := sg, status := ''swept''\<rparr>) 86400 s,
          (tu @ ts) @ [KvSetSession (''session:'' @ sid) (sess\<lparr>sweepSignature := sg, status := ''swept''\<rparr>) 86400])"
        using Inr u l ru rs by (simp add: sweep_funds_def pbind_def run_simps redis_set_session_ok[OF kv])
      then show ?thesis using swept[of "tu @ ts" sg] tu ts by simp
    qed
  qed
qed

lemma poll_settle_outcome:
  assumes kv: "kv_error e = None"
  obtains
    (mint_error) buyer ts mintErr tm where
      "\<And>s0. findUsdcSender e (publicKey kp) s0 = (Inr buyer, s0, ts)"
      "list_all is_scan_event ts"
      "\<And>s0. mintNft e (loaded\<lparr>status := ''minting'', buyerWallet := buyer\<rparr>) buyer s0 = (Inl mintErr, s0, tm)"
      "list_all is_mint_event tm"
      "poll_settle e sid loaded kp s =
         (Inr (Response 200
                (if isInsufficientSol mintErr
                 then Needs_funding_body (match_need (errMsg mintErr)) buyer
                 else Paid_body (errMsg mintErr) buyer)),
          put_session sid
            (loaded\<lparr>buyerWallet := buyer,
                    status := (if isInsufficientSol mintErr then ''needs_funding'' else ''paid'')\<rparr>) 86400 s,
          KvSetSession (''session:'' @ sid) (loaded\<lparr>status := ''minting''\<rparr>) 3600
          # ts
          @ KvSetSession (''session:'' @ sid) (loaded\<lparr>status := ''minting'', buyerWallet := buyer\<rparr>) 3600
          # tm
          @ [ConsoleError ''Mint error:'' mintErr,
             KvSetSession (''session:'' @ sid)
               (loaded\<lparr>buyerWallet := buyer,
                       status := (if isInsufficientSol mintErr then ''needs_funding'' else ''paid'')\<rparr>) 86400])"
  | (sweep_error) buyer ts mr tm tw sweepErr where
      "\<And>s0. findUsdcSender e (publicKey kp) s0 = (Inr buyer, s0, ts)"
      "list_all is_scan_event ts"
      "\<And>s0. mintNft e (loaded\<lparr>status := ''minting'', buyerWallet := buyer\<rparr>) buyer s0 = (Inr mr, s0, tm)"
      "list_all is_mint_event tm"
      "list_all is_transfer_event tw"
      "poll_settle e sid loaded kp s =
         (Inr (Response 200 (Minted_body (Some (mr_mintAddress mr)) (Some (mr_signature mr)) buyer)),
          put_session sid
            (loaded\<lparr>buyerWallet := buyer, status := ''minted'',
                    mintAddress := Some (mr_mintAddress mr),
                    mintSignature := Some (mr_signature mr)\<rparr>) 86400 s,
          KvSetSession (''session:'' @ sid) (loaded\<lparr>status := ''minting''\<rparr>) 3600
          # ts
          @ KvSetSession (''session:'' @ sid) (loaded\<lparr>status := ''minting'', buyerWallet := buyer\<rparr>) 3600
          # tm
          @ KvSetSession (''session:'' @ sid)
              (loaded\<lparr>buyerWallet := buyer, status := ''minted'',
                      mintAddress := Some (mr_mintAddress mr),
                      mintSignature := Some (mr_signature mr)\<rparr>) 86400
          # tw
          @ [ConsoleError ''Sweep error (non-fatal):'' sweepErr])"
  | (swept) buyer ts mr tm tw sg where
      "\<And>s0. findUsdcSender e (publicKey kp) s0 = (Inr buyer, s0, ts)"
      "list_all is_scan_event ts"
      "\<And>s0. mintNft e (loaded\<lparr>status := ''minting'', buyerWallet := buyer\<rparr>) buyer s0 = (Inr mr, s0, tm)"
      "list_all is_mint_event tm"
      "list_all is_transfer_event tw"
      "poll_settle e sid loaded kp s =
         (Inr (Response 200 (Minted_body (Some (mr_mintAddress mr)) (Some (mr_signature mr)) buyer)),
          put_session sid
            (loaded\<lparr>buyerWallet := buyer,
                    mintAddress := Some (mr_mintAddress mr),
                    mintSignature := Some (mr_signature mr), sweepSignature := sg,
                    status := ''swept''\<rparr>) 86400 s,
          KvSetSession (''session:'' @ sid) (loaded\<lparr>status := ''minting''\<rparr>) 3600
          # ts
          @ KvSetSession (''session:'' @ sid) (loaded\<lparr>status := ''minting'', buyerWallet := buyer\<rparr>) 3600
          # tm
          @ KvSetSession (''session:'' @ sid)
              (loaded\<lparr>buyerWallet := buyer, status := ''minted'',
                      mintAddress := Some (mr_mintAddress mr),
                      mintSignature := Some (mr_signature mr)\<rparr>) 86400
          # tw
          @ [KvSetSession (''session:'' @ sid)
               (loaded\<lparr>buyerWallet := buyer,
                       mintAddress := Some (mr_mintAddress mr),
                       mintSignature := Some (mr_signature mr), sweepSignature := sg,
                       status := ''swept''\<rparr>) 86400])"
proof -
  obtain rb ts where fs0: "\<And>s0. findUsdcSender e (publicKey kp) s0 = (rb, s0, ts)"
    and ts: "list_all is_scan_event ts"
    using store_free_findUsdcSender[of e "publicKey kp"] unfolding store_free_def by blast
  obtain buyer where rb: "rb = Inr buyer"
    using findUsdcSender_never_throws[of e "publicKey kp" s] fs0[of s] by (cases rb) auto
  have fs: "\<And>s0. findUsdcSender e (publicKey kp) s0 = (Inr buyer, s0, ts)"
    using fs0 rb by simp
  define session2 where "session2 = loaded\<lparr>status := ''minting'', buyerWallet := buyer\<rparr>"
  obtain rm tm where mt: "\<And>s0. mintNft e session2 buyer s0 = (rm, s0, tm)"
    and tm: "list_all is_mint_event tm"
    using store_free_mintNft[of e session2 buyer] unfolding store_free_def by blast
  show ?thesis
  proof (cases rm)
    case (Inl mintErr)
    have "poll_settle e sid loaded kp s =
         (Inr (Response 200
                (if isInsufficientSol mintErr
                 then Needs_funding_body (match_need (errMsg mintErr)) buyer
                 else Paid_body (errMsg mintErr) buyer)),
          put_session sid
            (loaded\<lparr>buyerWallet := buyer,
                    status := (if isInsufficientSol mintErr then ''needs_funding'' else ''paid'')\<rparr>) 86400 s,
          KvSetSession (''session:'' @ sid) (loaded\<lparr>status := ''minting''\<rparr>) 3600
          # ts
          @ KvSetSession (''session:'' @ sid) (loaded\<lparr>status := ''minting'', buyerWallet := buyer\<rparr>) 3600
          # tm
          @ [ConsoleError ''Mint error:'' mintErr,
             KvSetSession (''session:'' @ sid)
               (loaded\<lparr>buyerWallet := buyer,
                       status := (if isInsufficientSol mintErr then ''needs_funding'' else ''paid'')\<rparr>) 86400])"
      using fs mt[unfolded session2_def] Inl
      by (simp add: poll_settle_def Let_def mint_failed_def pbind_def attempt_def run_simps
            redis_set_session_ok[OF kv])
    then show ?thesis
      using mint_error[of buyer ts mintErr tm] fs ts mt[unfolded session2_def] tm Inl by simp
  next
    case (Inr mr)
    define session3 where "session3 = loaded\<lparr>buyerWallet := buyer, status := ''minted'',
                    mintAddress := Some (mr_mintAddress mr),
                    mintSignature := Some (mr_signature mr)\<rparr>"
    show ?thesis
    proof (rule sweep_funds_outcome[OF kv, of sid session3 kp], goal_cases)
      case sweep_error: (1 tw sweepErr)
      have "poll_settle e sid loaded kp s =
         (Inr (Response 200 (Minted_body (Some (mr_mintAddress mr)) (Some (mr_signature mr)) buyer)),
          put_session sid session3 86400 s,
          KvSetSession (''session:'' @ sid) (loaded\<lparr>status := ''minting''\<rparr>) 3600
          # ts
          @ KvSetSession (''session:'' @ sid) (loaded\<lparr>status := ''minting'', buyerWallet := buyer\<rparr>) 3600
          # tm
          @ KvSetSession (''session:'' @ sid) session3 86400
          # tw
          @ [ConsoleError ''Sweep error (non-fatal):'' sweepErr])"
        using fs mt[unfolded session2_def] Inr sweep_error(2)[unfolded session3_def]
        by (simp add: poll_settle_def Let_def pbind_def attempt_def ptry_def run_simps
              redis_set_session_ok[OF kv] session3_def)
      then show ?thesis
        using sweep_error(1) fs ts mt[unfolded session2_def] tm Inr
        unfolding session3_def
        by (intro that(2)[of buyer ts mr tm tw sweepErr]) simp_all
    next
      case swept: (2 tw sg)
      have "poll_settle e sid loaded kp s =
         (Inr (Response 200 (Minted_body (Some (mr_mintAddress mr)) (Some (mr_signature mr)) buyer)),
          put_session sid (session3\<lparr>sweepSignature := sg, status := ''swept''\<rparr>) 86400 s,
          KvSetSession (''session:'' @ sid) (loaded\<lparr>status := ''minting''\<rparr>) 3600
          # ts
          @ KvSetSession (''session:'' @ sid) (loaded\<lparr>status := ''minting'', buyerWallet := buyer\<rparr>) 3600
          # tm
          @ KvSetSession (''session:'' @ sid) session3 86400
          # tw
          @ [KvSetSession (''session:'' @ sid) (session3\<lparr>sweepSignature := sg, status := ''swept''\<rparr>) 86400])"
        using fs mt[unfolded session2_def] Inr swept(2)[unfolded session3_def]
        by (simp add: poll_settle_def Let_def pbind_def attempt_def ptry_def run_simps
              redis_set_session_ok[OF kv] session3_def)
      then show ?thesis
        using swept(1) fs ts mt[unfolded session2_def] tm Inr
        unfolding session3_def
        by (intro that(3)[of buyer ts mr tm tw sg]) simp_all
    qed
  qed
qed

lemma getUsdcBalance_run:
  "getUsdcBalance e a s = (Inr (usdc_balance e a), s, [RpcTokenAccount a])"
  by (simp add: getUsdcBalance_def usdc_balance_def ptry_def pbind_def run_simps split: sum.splits)

lemma poll_check_eq:
  assumes kv: "kv_error e = None"
  shows "poll_check e req sid s =
    (case sessions s sid of
       None \<Rightarrow> (Inr (Inl (Response 404 (Error_body ''Session not found or expired''))), s,
                 [KvGet (''session:'' @ sid)])
     | Some (session, ttl) \<Rightarrow>
         if status session = ''minting'' then
           (Inr (Inl (Response 200 Minting_body)), s, [KvGet (''session:'' @ sid)])
         else if status session = ''minted'' then
           (Inr (Inl (Response 200 (Stored_minted_body (mintAddress session) (mintSignature session)))),
            s, [KvGet (''session:'' @ sid)])
         else if now e > expiresAt session then
           (Inr (Inl (Response 200 Expired_body)), s, [KvGet (''session:'' @ sid)])
         else
           (case getConnection e of
              Inl err \<Rightarrow> (Inl err, s, [KvGet (''session:'' @ sid)])
            | Inr u \<Rightarrow>
               (case getSessionKeypair e (sessionIndex session) of
                  Inl err \<Rightarrow> (Inl err, s, [KvGet (''session:'' @ sid)])
                | Inr kp \<Rightarrow>
                    if pr_test req = Some ''true'' then
                      (Inr (Inr (session, kp)), s, [KvGet (''session:'' @ sid)])
                    else if usdc_balance e (publicKey kp) < REQUIRED_USDC then
                      (Inr (Inl (Response 200
                         (Pending_body (paymentAddress session) REQUIRED_USDC
                            (usdc_balance e (publicKey kp))))), s,
                       [KvGet (''session:'' @ sid), RpcTokenAccount (publicKey kp)])
                    else
                      (Inr (Inr (session, kp)), s,
                       [KvGet (''session:'' @ sid), RpcTokenAccount (publicKey kp)]))))"
  by (simp add: poll_check_def Let_def pbind_def run_simps redis_getJson_ok[OF kv]
        getUsdcBalance_run split: option.splits sum.splits)

lemmas model_defs = poll_handler_def poll_check_def poll_settle_def mint_failed_def mintNft_def
  sweep_funds_def sweepUsdc_def sweepSol_def getBalance_def sendAndConfirmTransaction_def
  findUsdcSender_def getSignaturesForAddress_def getTransaction_def getUsdcBalance_def
  pinFileToIPFS_def read_metadata_def json_get_def getConnection_def getSessionKeypair_def
  getMasterKeypair_def deriveKeypair_def derivation_path_def show_int_def show_nat.simps
  digit_char_def apostrophe_def redis_getJson_def redis_set_session_def redis_request_def
  put_session_def pbind_def ptry_def attempt_def run_simps trim_def is_space_def
  REQUIRED_USDC_def USDC_MINT_def errMsg_def isInsufficientSol_def js_String_def new_Error_def

lemmas demo_defs = demo_env_def demo_kv_def demo_poll_def demo_session_def demo_tx_def demo_keys_def

lemma poll_check_trace:
  assumes kv: "kv_error e = None" and "poll_check e req sid s = (res, s1, tc)"
  shows "s1 = s \<and> list_all is_check_event tc"
  using assms(2) unfolding poll_check_eq[OF kv]
  by (auto split: option.splits sum.splits if_splits)


lemma poll_settle_returns:
  assumes kv: "kv_error e = None"
  shows "\<exists>r s' t. poll_settle e sid loaded kp s = (Inr r, s', t)"
  by (rule poll_settle_outcome[OF kv, of kp loaded sid s]) blast+

lemma poll_handler_cases:
  assumes kv: "kv_error e = None"
    and req: "pr_method req = ''GET''" "pr_sessionId req = Some sid" "sid \<noteq> []"
  obtains
    (answered) resp tc where
      "poll_check e req sid s = (Inr (Inl resp), s, tc)"
      "poll_handler e req s = (Inr resp, s, tc)"
      "list_all is_check_event tc"
  | (failed) err tc where
      "poll_check e req sid s = (Inl err, s, tc)"
      "poll_handler e req s =
         (Inr (Response 500 (Error_body (err_message err))), s, tc @ [ConsoleError ''Poll error:'' err])"
      "list_all is_check_event tc"
  | (confirmed) loaded kp tc r s' t where
      "poll_check e req sid s = (Inr (Inr (loaded, kp)), s, tc)"
      "list_all is_check_event tc"
      "poll_settle e sid loaded kp s = (Inr r, s', t)"
      "poll_handler e req s = (Inr r, s', tc @ t)"
proof -
  obtain res s1 tc where pc: "poll_check e req sid s = (res, s1, tc)"
    by (cases "poll_check e req sid s") auto
  from poll_check_trace[OF kv pc] have s1: "s1 = s" and tc: "list_all is_check_event tc"
    by simp_all
  have ph: "poll_handler e req s =
      ptry (pbind (poll_check e req sid) (\<lambda>checked.
                      case checked of
                        Inl sent \<Rightarrow> pret sent
                      | Inr (session, sessionKeypair) \<Rightarrow> poll_settle e sid session sessionKeypair))
                   (\<lambda>err. pbind (console_error ''Poll error:'' err)
                            (\<lambda>_. pret (Response 500 (Error_body (err_message err))))) s"
    using req by (simp add: poll_handler_def)
  show ?thesis
  proof (cases res)
    case (Inl err)
    then have "poll_handler e req s =
         (Inr (Response 500 (Error_body (err_message err))), s, tc @ [ConsoleError ''Poll error:'' err])"
      using pc s1 unfolding ph by (simp add: ptry_def pbind_def run_simps)
    then show ?thesis using failed pc s1 tc Inl by simp
  next
    case (Inr checked)
    show ?thesis
    proof (cases checked)
      case (Inl resp)
      then have "poll_handler e req s = (Inr resp, s, tc)"
        using pc s1 Inr unfolding ph by (simp add: ptry_def pbind_def run_simps)
      then show ?thesis using answered pc s1 tc Inr Inl by simp
    next
      case right: (Inr pair)
      obtain loaded kp where pair: "pair = (loaded, kp)" by (cases pair) auto
      obtain r s' t where ps: "poll_settle e sid loaded kp s = (Inr r, s', t)"
        using poll_settle_returns[OF kv] by blast
      have "poll_handler e req s = (Inr r, s', tc @ t)"
        using pc s1 Inr right pair ps unfolding ph by (simp add: ptry_def pbind_def run_simps)
      then show ?thesis using confirmed pc s1 tc Inr right pair ps by simp
    qed
  qed
qed







section \<open>Mint failures (C3)\<close>




section \<open>Sweep failures (C5)\<close>


lemma scan_no_write: "list_all is_scan_event ts \<Longrightarrow> list_all (\<lambda>ev. \<not> is_store_write ev) ts"
  by (induction ts) (auto elim: is_scan_event.elims)





section \<open>Expiry (C4)\<close>

lemma poll_settle_starts:
  assumes kv: "kv_error e = None"
  shows "\<exists>r s' rest. poll_settle e sid loaded kp s =
           (Inr r, s', KvSetSession (''session:'' @ sid) (loaded\<lparr>status := ''minting''\<rparr>) 3600 # rest)
           \<and> reported_status (Inr r) \<noteq> Some ''expired''"
  by (rule poll_settle_outcome[OF kv, of kp loaded sid s]) auto

lemma poll_handler_eq:
  assumes kv: "kv_error e = None"
    and req: "pr_method req = ''GET''" "pr_sessionId req = Some sid" "sid \<noteq> []"
  shows "poll_handler e req s =
     (case poll_check e req sid s of
        (Inl err, s1, tc) \<Rightarrow>
          (Inr (Response 500 (Error_body (err_message err))), s1, tc @ [ConsoleError ''Poll error:'' err])
      | (Inr (Inl resp), s1, tc) \<Rightarrow> (Inr resp, s1, tc)
      | (Inr (Inr (loaded, kp)), s1, tc) \<Rightarrow>
          (case poll_settle e sid loaded kp s1 of (r, s2, t) \<Rightarrow> (r, s2, tc @ t)))"
proof -
  obtain res s1 tc where pc: "poll_check e req sid s = (res, s1, tc)"
    by (cases "poll_check e req sid s") auto
  show ?thesis
  proof (cases res)
    case (Inl err)
    then show ?thesis using pc req by (simp add: poll_handler_def ptry_def pbind_def run_simps)
  next
    case (Inr checked)
    show ?thesis
    proof (cases checked)
      case (Inl resp)
      then show ?thesis using pc req Inr by (simp add: poll_handler_def ptry_def pbind_def run_simps)
    next
      case right: (Inr pair)
      obtain loaded kp where pair: "pair = (loaded, kp)" by (cases pair) auto
      obtain r s2 t where ps: "poll_settle e sid loaded kp s1 = (Inr r, s2, t)"
        using poll_settle_returns[OF kv] by blast
      show ?thesis using pc req Inr right pair ps
        by (simp add: poll_handler_def ptry_def pbind_def run_simps)
    qed
  qed
qed

text \<open>
  The expiry test of the poll handler looks at the clock only, after the \<^verbatim>\<open>minting\<close> and
  \<^verbatim>\<open>minted\<close> answers: a session whose earlier mint failed (status \<^verbatim>\<open>paid\<close>) and that is
  polled after \<open>expiresAt\<close> is reported \<^verbatim>\<open>expired\<close>.
\<close>

theorem expired_from_paid_counterexample:
  "sessions paid_kv ''s1'' = Some (paid_session, 86400) \<and> status paid_session = ''paid''
   \<and> status paid_session \<noteq> ''pending'' \<and> now late_env > expiresAt paid_session
   \<and> fst (poll_handler late_env demo_poll paid_kv) = Inr (Response 200 Expired_body)"
  by (simp add: model_defs demo_defs paid_kv_def paid_session_def late_env_def)

text \<open>
  C4, as the code has it. With the store available, a poll of a stored session whose status
  is not \<^verbatim>\<open>swept\<close> reports \<^verbatim>\<open>expired\<close> exactly when the stored status is neither
  \<^verbatim>\<open>minting\<close> nor \<^verbatim>\<open>minted\<close> and the clock is past \<open>expiresAt\<close> (so for \<^verbatim>\<open>pending\<close>,
  and also for \<^verbatim>\<open>paid\<close> and \<^verbatim>\<open>needs_funding\<close>). A poll without the test flag that finds
  the balance below the required amount writes nothing to the store, so such a session is
  never moved to \<^verbatim>\<open>minting\<close>.
\<close>

theorem expired_iff_past_expiry:
  assumes kv: "kv_error e = None"
    and req: "pr_method req = ''GET''" "pr_sessionId req = Some sid" "sid \<noteq> []"
    and stored: "sessions s sid = Some (sess, ttl)"
    and unswept: "status sess \<noteq> ''swept''"
  shows "(reported_status (fst (poll_handler e req s)) = Some ''expired'')
           = (status sess \<noteq> ''minting'' \<and> status sess \<noteq> ''minted'' \<and> now e > expiresAt sess)
         \<and> (pr_test req \<noteq> Some ''true''
              \<and> (\<forall>kp. getSessionKeypair e (sessionIndex sess) = Inr kp
                        \<longrightarrow> usdc_balance e (publicKey kp) < REQUIRED_USDC)
             \<longrightarrow> fst (snd (poll_handler e req s)) = s
                 \<and> list_all (\<lambda>ev. \<not> is_store_write ev) (trace_of (poll_handler e req s)))"
proof (intro conjI impI)
  show "(reported_status (fst (poll_handler e req s)) = Some ''expired'')
           = (status sess \<noteq> ''minting'' \<and> status sess \<noteq> ''minted'' \<and> now e > expiresAt sess)"
  proof (cases "status sess \<noteq> ''minting'' \<and> status sess \<noteq> ''minted'' \<and> now e > expiresAt sess")
    case True
    then show ?thesis
      using stored by (simp add: poll_handler_eq[OF kv req] poll_check_eq[OF kv])
  next
    case False
    have "reported_status (fst (poll_handler e req s)) \<noteq> Some ''expired''"
    proof (rule poll_handler_cases[OF kv req, of s], goal_cases)
      case (1 resp tc)
      then show ?case using stored False unfolding poll_check_eq[OF kv]
        by (auto split: if_splits sum.splits)
    next
      case (2 err tc)
      then show ?case by simp
    next
      case (3 loaded kp tc r s' t)
      from poll_settle_starts[OF kv, of sid loaded kp s] 3(3)
      have "reported_status (Inr r) \<noteq> Some ''expired''" by auto
      then show ?case using 3(4) by simp
    qed
    then show ?thesis using False by simp
  qed
next
  assume a: "pr_test req \<noteq> Some ''true''
              \<and> (\<forall>kp. getSessionKeypair e (sessionIndex sess) = Inr kp
                        \<longrightarrow> usdc_balance e (publicKey kp) < REQUIRED_USDC)"
  then show "fst (snd (poll_handler e req s)) = s"
    using stored by (auto simp: poll_handler_eq[OF kv req] poll_check_eq[OF kv] split: sum.splits)
  from a show "list_all (\<lambda>ev. \<not> is_store_write ev) (trace_of (poll_handler e req s))"
    using stored
    by (auto simp: poll_handler_eq[OF kv req] poll_check_eq[OF kv] trace_of_def split: sum.splits)
qed

theorem expired_iff_past_expiry_witness:
  "reported_status (fst (poll_handler late_env demo_poll paid_kv)) = Some ''expired''
   \<and> reported_status (fst (poll_handler demo_env demo_poll paid_kv)) \<noteq> Some ''expired''
   \<and> fst (snd (poll_handler underpaid_env demo_poll demo_kv)) = demo_kv"
proof -
  have kv: "kv_error late_env = None" "kv_error demo_env = None" "kv_error underpaid_env = None"
    by (simp_all add: late_env_def underpaid_env_def demo_env_def)
  have req: "pr_method demo_poll = ''GET''" "pr_sessionId demo_poll = Some ''s1''" "''s1'' \<noteq> []"
    by (simp_all add: demo_poll_def)
  have st: "sessions paid_kv ''s1'' = Some (paid_session, 86400)"
    "sessions demo_kv ''s1'' = Some (demo_session, 1800)"
    by (simp_all add: paid_kv_def demo_kv_def)
  have late: "status paid_session \<noteq> ''minting'' \<and> status paid_session \<noteq> ''minted''
      \<and> now late_env > expiresAt paid_session"
    "\<not> now demo_env > expiresAt paid_session"
    by (simp_all add: paid_session_def demo_session_def late_env_def demo_env_def)
  have unswept: "status paid_session \<noteq> ''swept''" "status demo_session \<noteq> ''swept''"
    by (simp_all add: paid_session_def demo_session_def)
  have low: "pr_test demo_poll \<noteq> Some ''true''
      \<and> (\<forall>kp. getSessionKeypair underpaid_env (sessionIndex demo_session) = Inr kp
            \<longrightarrow> usdc_balance underpaid_env (publicKey kp) < REQUIRED_USDC)"
    by (simp add: demo_poll_def usdc_balance_def underpaid_env_def REQUIRED_USDC_def)
  from expired_iff_past_expiry[OF kv(1) req st(1) unswept(1)] late(1)
  have "reported_status (fst (poll_handler late_env demo_poll paid_kv)) = Some ''expired''"
    by blast
  moreover from expired_iff_past_expiry[OF kv(2) req st(1) unswept(1)] late(2)
  have "reported_status (fst (poll_handler demo_env demo_poll paid_kv)) \<noteq> Some ''expired''"
    by blast
  moreover from expired_iff_past_expiry[OF kv(3) req st(2) unswept(2)] low
  have "fst (snd (poll_handler underpaid_env demo_poll demo_kv)) = demo_kv"
    by blast
  ultimately show ?thesis by blast
qed


section \<open>Payment confirmation (C9)\<close>

text \<open>
  C9. For a stored session that is not expired and whose status is none of \<^verbatim>\<open>minting\<close>,
  \<^verbatim>\<open>minted\<close> and \<^verbatim>\<open>swept\<close> (a \<^verbatim>\<open>pending\<close> one, or a \<^verbatim>\<open>paid\<close> or \<^verbatim>\<open>needs_funding\<close>
  one on retry), with the store, the RPC endpoint and the session key available: the required amount is 2250000; without the test flag the handler reads the
  balance and, if it is at least the required amount, goes on to write \<^verbatim>\<open>minting\<close>, and
  otherwise answers \<^verbatim>\<open>pending\<close> with the balance read and changes nothing; with the test flag
  it writes \<^verbatim>\<open>minting\<close> straight after loading the session, with no balance read before.
\<close>

theorem payment_confirmed_iff:
  assumes kv: "kv_error e = None"
    and req: "pr_method req = ''GET''" "pr_sessionId req = Some sid" "sid \<noteq> []"
    and stored: "sessions s sid = Some (sess, ttl)"
    and pre: "status sess \<noteq> ''minting''" "status sess \<noteq> ''minted''" "\<not> now e > expiresAt sess"
    and conn: "getConnection e = Inr ()"
    and kp: "getSessionKeypair e (sessionIndex sess) = Inr kp"
    and unswept: "status sess \<noteq> ''swept''"
  shows "REQUIRED_USDC = 2250000
    \<and> fst (getUsdcBalance e (publicKey kp) s) = Inr (usdc_balance e (publicKey kp))
    \<and> (if pr_test req = Some ''true'' then
          (\<exists>r s' rest. poll_handler e req s =
             (r, s', KvGet (''session:'' @ sid)
                     # KvSetSession (''session:'' @ sid) (sess\<lparr>status := ''minting''\<rparr>) 3600 # rest))
        else if REQUIRED_USDC \<le> usdc_balance e (publicKey kp) then
          (\<exists>r s' rest. poll_handler e req s =
             (r, s', KvGet (''session:'' @ sid) # RpcTokenAccount (publicKey kp)
                     # KvSetSession (''session:'' @ sid) (sess\<lparr>status := ''minting''\<rparr>) 3600 # rest))
        else
          poll_handler e req s =
            (Inr (Response 200
                    (Pending_body (paymentAddress sess) REQUIRED_USDC (usdc_balance e (publicKey kp)))),
             s, [KvGet (''session:'' @ sid), RpcTokenAccount (publicKey kp)]))"
proof (intro conjI)
  show "REQUIRED_USDC = 2250000" by (simp add: REQUIRED_USDC_def)
  show "fst (getUsdcBalance e (publicKey kp) s) = Inr (usdc_balance e (publicKey kp))"
    by (simp add: getUsdcBalance_run)
  obtain r s' rest where ps: "poll_settle e sid sess kp s =
           (Inr r, s', KvSetSession (''session:'' @ sid) (sess\<lparr>status := ''minting''\<rparr>) 3600 # rest)"
    using poll_settle_starts[OF kv, of sid sess kp s] by blast
  show "if pr_test req = Some ''true'' then
          (\<exists>r s' rest. poll_handler e req s =
             (r, s', KvGet (''session:'' @ sid)
                     # KvSetSession (''session:'' @ sid) (sess\<lparr>status := ''minting''\<rparr>) 3600 # rest))
        else if REQUIRED_USDC \<le> usdc_balance e (publicKey kp) then
          (\<exists>r s' rest. poll_handler e req s =
             (r, s', KvGet (''session:'' @ sid) # RpcTokenAccount (publicKey kp)
                     # KvSetSession (''session:'' @ sid) (sess\<lparr>status := ''minting''\<rparr>) 3600 # rest))
        else
          poll_handler e req s =
            (Inr (Response 200
                    (Pending_body (paymentAddress sess) REQUIRED_USDC (usdc_balance e (publicKey kp)))),
             s, [KvGet (''session:'' @ sid), RpcTokenAccount (publicKey kp)])"
    using stored pre conn kp ps
    by (simp add: poll_handler_eq[OF kv req] poll_check_eq[OF kv])
qed

theorem payment_confirmed_iff_witness:
  "poll_handler underpaid_env demo_poll demo_kv =
     (Inr (Response 200 (Pending_body (derivation_path 1001) 2250000 1000000)), demo_kv,
      [KvGet ''session:s1'', RpcTokenAccount (derivation_path 1001)])
   \<and> (\<exists>r s' rest. poll_handler demo_env demo_poll demo_kv =
        (r, s', KvGet ''session:s1'' # RpcTokenAccount (derivation_path 1001)
                # KvSetSession ''session:s1'' (demo_session\<lparr>status := ''minting''\<rparr>) 3600 # rest))
   \<and> (\<exists>r s' rest. poll_handler underpaid_env test_poll demo_kv =
        (r, s', KvGet ''session:s1''
                # KvSetSession ''session:s1'' (demo_session\<lparr>status := ''minting''\<rparr>) 3600 # rest))"
proof -
  have kv: "kv_error demo_env = None" "kv_error underpaid_env = None"
    by (simp_all add: underpaid_env_def demo_env_def)
  have req: "pr_method demo_poll = ''GET''" "pr_sessionId demo_poll = Some ''s1''" "''s1'' \<noteq> []"
    "pr_method test_poll = ''GET''" "pr_sessionId test_poll = Some ''s1''"
    by (simp_all add: demo_poll_def test_poll_def)
  have st: "sessions demo_kv ''s1'' = Some (demo_session, 1800)"
    by (simp add: demo_kv_def)
  have pre: "status demo_session \<noteq> ''minting''" "status demo_session \<noteq> ''minted''"
    "\<not> now demo_env > expiresAt demo_session" "\<not> now underpaid_env > expiresAt demo_session"
    by (simp_all add: demo_session_def demo_env_def underpaid_env_def)
  have conn: "getConnection demo_env = Inr ()" "getConnection underpaid_env = Inr ()"
    by (simp_all add: getConnection_def demo_env_def underpaid_env_def)
  have kp: "getSessionKeypair demo_env (sessionIndex demo_session)
              = Inr \<lparr>publicKey = derivation_path 1001, secretKey = ''seed''\<rparr>"
    "getSessionKeypair underpaid_env (sessionIndex demo_session)
              = Inr \<lparr>publicKey = derivation_path 1001, secretKey = ''seed''\<rparr>"
    by (simp_all add: getSessionKeypair_def deriveKeypair_def demo_defs underpaid_env_def)
  have unswept: "status demo_session \<noteq> ''swept''" by (simp add: demo_session_def)
  have bal: "usdc_balance demo_env (derivation_path 1001) = 2250000"
    "usdc_balance underpaid_env (derivation_path 1001) = 1000000"
    "paymentAddress demo_session = derivation_path 1001"
    "pr_test demo_poll \<noteq> Some ''true''" "pr_test test_poll = Some ''true''"
    by (simp_all add: usdc_balance_def demo_env_def underpaid_env_def demo_session_def
          demo_poll_def test_poll_def)
  from payment_confirmed_iff[OF kv(2) req(1,2,3) st pre(1,2,4) conn(2) kp(2) unswept]
  have a: "poll_handler underpaid_env demo_poll demo_kv =
     (Inr (Response 200 (Pending_body (derivation_path 1001) 2250000 1000000)), demo_kv,
      [KvGet ''session:s1'', RpcTokenAccount (derivation_path 1001)])"
    by (simp add: bal REQUIRED_USDC_def)
  from payment_confirmed_iff[OF kv(1) req(1,2,3) st pre(1,2,3) conn(1) kp(1) unswept]
  have b: "\<exists>r s' rest. poll_handler demo_env demo_poll demo_kv =
        (r, s', KvGet ''session:s1'' # RpcTokenAccount (derivation_path 1001)
                # KvSetSession ''session:s1'' (demo_session\<lparr>status := ''minting''\<rparr>) 3600 # rest)"
    by (simp add: bal REQUIRED_USDC_def)
  from payment_confirmed_iff[OF kv(2) req(4,5,3) st pre(1,2,4) conn(2) kp(2) unswept]
  have c: "\<exists>r s' rest. poll_handler underpaid_env test_poll demo_kv =
        (r, s', KvGet ''session:s1''
                # KvSetSession ''session:s1'' (demo_session\<lparr>status := ''minting''\<rparr>) 3600 # rest)"
    by (simp add: bal REQUIRED_USDC_def)
  from a b c show ?thesis by blast
qed


section \<open>Concurrent polls (C1)\<close>

lemma poll_handler_split:
  assumes "pr_method req = ''GET''" "pr_sessionId req = Some sid" "sid \<noteq> []"
  shows "poll_handler e req s =
     (case poll_check e req sid s of
        (Inl err, s1, t) \<Rightarrow>
          (Inr (Response 500 (Error_body (err_message err))), s1, t @ [ConsoleError ''Poll error:'' err])
      | (Inr checked, s1, t) \<Rightarrow>
          (case poll_resume e sid checked s1 of (r, s2, u) \<Rightarrow> (r, s2, t @ u)))"
  using assms
  by (auto simp: poll_handler_def poll_resume_def ptry_def pbind_def run_simps
        split: prod.splits sum.splits)

text \<open>
  C1 asks for at most one mint transaction per session, also when two polls run
  concurrently, by an atomic check-and-set of the status to \<^verbatim>\<open>minting\<close>. The handler does
  not have it: it loads the session, awaits the key derivation and the balance read, and only
  then writes \<^verbatim>\<open>minting\<close> with a plain \<^verbatim>\<open>SET\<close>; the store wrapper has no conditional
  write. On the example session, with a failing sweep so that the record stays \<^verbatim>\<open>minted\<close>:
  two polls one after the other submit one mint transaction, while two polls whose checks
  both complete before either write submit two.
\<close>

theorem concurrent_polls_mint_twice:
  "length (filter is_mint_submission (sequential_polls sweep_fail_env demo_poll demo_poll demo_kv)) = 1
   \<and> filter is_mint_submission (interleaved_polls sweep_fail_env demo_poll demo_poll ''s1'' demo_kv)
       = [Submit (CreateNft ''mint1'' ''buyer'' ''https://gateway.pinata.cloud/ipfs/cid''),
          Submit (CreateNft ''mint1'' ''buyer'' ''https://gateway.pinata.cloud/ipfs/cid'')]"
  by (simp add: sequential_polls_def interleaved_polls_def poll_resume_def model_defs demo_defs
        sweep_fail_env_def Let_def)


section \<open>Polling a finished session (C2)\<close>

text \<open>
  C2 asks that a poll of a session stored as \<^verbatim>\<open>minted\<close> or \<^verbatim>\<open>swept\<close> returns the stored
  result and has no side effect. The handler answers from the stored record for status
  \<^verbatim>\<open>minted\<close> only. A fully successful poll leaves the record with status \<^verbatim>\<open>swept\<close>; the
  next poll of it (before \<open>expiresAt\<close>) reads the ledger balance and answers \<^verbatim>\<open>pending\<close>,
  and with the test flag it submits a second mint transaction.
\<close>

theorem poll_swept_not_idempotent:
  "fst (snd (poll_handler demo_env demo_poll demo_kv)) = swept_kv
   \<and> sessions swept_kv ''s1'' = Some (swept_session, 86400)
   \<and> status swept_session = ''swept''
   \<and> poll_handler emptied_env demo_poll swept_kv =
       (Inr (Response 200 (Pending_body (derivation_path 1001) 2250000 0)), swept_kv,
        [KvGet ''session:s1'', RpcTokenAccount (derivation_path 1001)])
   \<and> filter is_mint_submission (trace_of (poll_handler emptied_env test_poll swept_kv))
       = [Submit (CreateNft ''mint1'' ''buyer'' ''https://gateway.pinata.cloud/ipfs/cid'')]"
  by (simp add: model_defs demo_defs swept_kv_def swept_session_def emptied_env_def test_poll_def
        trace_of_def Let_def)


section \<open>Sweeps (C6)\<close>

lemma sweepUsdc_run:
  "sweepUsdc e kp m s =
     (if usdc_balance e (publicKey kp) = 0 then (Inr None, s, [RpcTokenAccount (publicKey kp)])
      else (map_sum id Some
              (send_result e (TokenTransfer (publicKey kp) m (usdc_balance e (publicKey kp)))),
            s,
            [RpcTokenAccount (publicKey kp),
             Submit (TokenTransfer (publicKey kp) m (usdc_balance e (publicKey kp)))]))"
  by (simp add: sweepUsdc_def pbind_Inr[OF getUsdcBalance_run] sendAndConfirmTransaction_def
        pbind_def run_simps split: sum.splits)

lemma sweepSol_run:
  assumes "lamports_of e (publicKey kp) = Inr lamports"
  shows "sweepSol e kp m s =
     (if int lamports - 5000 \<le> 0 then (Inr None, s, [RpcBalance (publicKey kp)])
      else (map_sum id Some
              (send_result e (SystemTransfer (publicKey kp) m (int lamports - 5000))),
            s,
            [RpcBalance (publicKey kp),
             Submit (SystemTransfer (publicKey kp) m (int lamports - 5000))]))"
  using assms
  by (simp add: sweepSol_def getBalance_def sendAndConfirmTransaction_def Let_def
        pbind_def run_simps split: sum.splits)

text \<open>
  C6. \<open>sweepUsdc\<close> reads the USDC balance and returns null without submitting anything when
  it is zero, and otherwise submits one transfer of the whole balance; \<open>sweepSol\<close> reads the
  lamport balance and returns null without submitting anything when the balance minus the
  fee buffer of 5000 is not positive, and otherwise submits one transfer of that remainder.
  The sweep of a poll runs them in this order: with the store and the master key available
  and every submission succeeding, its trace is the USDC part, then the lamport part, then
  the write of the \<^verbatim>\<open>swept\<close> record.
\<close>

theorem sweep_asset_then_gas:
  assumes bal: "fst (getUsdcBalance e (publicKey kp) s) = Inr balance"
    and lam: "lamports_of e (publicKey kp) = Inr lamports"
  shows "sweepUsdc e kp m s =
           (if balance = 0 then (Inr None, s, [RpcTokenAccount (publicKey kp)])
            else (map_sum id Some (send_result e (TokenTransfer (publicKey kp) m balance)), s,
                  [RpcTokenAccount (publicKey kp),
                   Submit (TokenTransfer (publicKey kp) m balance)]))
       \<and> sweepSol e kp m s =
           (if int lamports - 5000 \<le> 0 then (Inr None, s, [RpcBalance (publicKey kp)])
            else (map_sum id Some
                    (send_result e (SystemTransfer (publicKey kp) m (int lamports - 5000))), s,
                  [RpcBalance (publicKey kp),
                   Submit (SystemTransfer (publicKey kp) m (int lamports - 5000))]))
       \<and> (kv_error e = None \<and> getMasterKeypair e = Inr mk
            \<and> (\<forall>tx. \<exists>sg. send_result e tx = Inr sg) \<longrightarrow>
           (\<exists>stored.
              status stored = ''swept''
              \<and> trace_of (sweep_funds e sid sess kp s) =
                  [RpcTokenAccount (publicKey kp)]
                  @ (if balance = 0 then []
                     else [Submit (TokenTransfer (publicKey kp) (publicKey mk) balance)])
                  @ [RpcBalance (publicKey kp)]
                  @ (if int lamports - 5000 \<le> 0 then []
                     else [Submit (SystemTransfer (publicKey kp) (publicKey mk)
                                     (int lamports - 5000))])
                  @ [KvSetSession (''session:'' @ sid) stored 86400]))"
proof (intro conjI impI)
  from bal have b: "usdc_balance e (publicKey kp) = balance"
    by (simp add: getUsdcBalance_run)
  show "sweepUsdc e kp m s =
           (if balance = 0 then (Inr None, s, [RpcTokenAccount (publicKey kp)])
            else (map_sum id Some (send_result e (TokenTransfer (publicKey kp) m balance)), s,
                  [RpcTokenAccount (publicKey kp),
                   Submit (TokenTransfer (publicKey kp) m balance)]))"
    using sweepUsdc_run[of e kp m s] b by simp
  show "sweepSol e kp m s =
           (if int lamports - 5000 \<le> 0 then (Inr None, s, [RpcBalance (publicKey kp)])
            else (map_sum id Some
                    (send_result e (SystemTransfer (publicKey kp) m (int lamports - 5000))), s,
                  [RpcBalance (publicKey kp),
                   Submit (SystemTransfer (publicKey kp) m (int lamports - 5000))]))"
    by (rule sweepSol_run[OF lam])
  assume a: "kv_error e = None \<and> getMasterKeypair e = Inr mk
            \<and> (\<forall>tx. \<exists>sg. send_result e tx = Inr sg)"
  then have kv: "kv_error e = None" and mk: "getMasterKeypair e = Inr mk" by simp_all
  from a obtain sg1 where sg1:
    "send_result e (TokenTransfer (publicKey kp) (publicKey mk) balance) = Inr sg1" by blast
  from a obtain sg2 where sg2:
    "send_result e (SystemTransfer (publicKey kp) (publicKey mk) (int lamports - 5000)) = Inr sg2"
    by blast
  define stored where
    "stored = sess\<lparr>sweepSignature := (if balance = 0 then None else Some sg1), status := ''swept''\<rparr>"
  have "trace_of (sweep_funds e sid sess kp s) =
                  [RpcTokenAccount (publicKey kp)]
                  @ (if balance = 0 then []
                     else [Submit (TokenTransfer (publicKey kp) (publicKey mk) balance)])
                  @ [RpcBalance (publicKey kp)]
                  @ (if int lamports - 5000 \<le> 0 then []
                     else [Submit (SystemTransfer (publicKey kp) (publicKey mk)
                                     (int lamports - 5000))])
                  @ [KvSetSession (''session:'' @ sid) stored 86400]"
    using mk sg1 sg2 b
    by (simp add: sweep_funds_def trace_of_def pbind_def run_simps sweepUsdc_run
          sweepSol_run[OF lam] redis_set_session_ok[OF kv] stored_def)
  moreover have "status stored = ''swept''" by (simp add: stored_def)
  ultimately show "\<exists>stored.
              status stored = ''swept''
              \<and> trace_of (sweep_funds e sid sess kp s) =
                  [RpcTokenAccount (publicKey kp)]
                  @ (if balance = 0 then []
                     else [Submit (TokenTransfer (publicKey kp) (publicKey mk) balance)])
                  @ [RpcBalance (publicKey kp)]
                  @ (if int lamports - 5000 \<le> 0 then []
                     else [Submit (SystemTransfer (publicKey kp) (publicKey mk)
                                     (int lamports - 5000))])
                  @ [KvSetSession (''session:'' @ sid) stored 86400]"
    by blast
qed

theorem sweep_asset_then_gas_witness:
  "sweepUsdc dust_env demo_keypair (derivation_path 0) demo_kv
     = (Inr None, demo_kv, [RpcTokenAccount (derivation_path 1001)])
   \<and> sweepSol dust_env demo_keypair (derivation_path 0) demo_kv
     = (Inr None, demo_kv, [RpcBalance (derivation_path 1001)])
   \<and> (\<exists>stored. status stored = ''swept''
        \<and> trace_of (sweep_funds demo_env ''s1'' demo_session demo_keypair demo_kv) =
            [RpcTokenAccount (derivation_path 1001),
             Submit (TokenTransfer (derivation_path 1001) (derivation_path 0) 2250000),
             RpcBalance (derivation_path 1001),
             Submit (SystemTransfer (derivation_path 1001) (derivation_path 0) 2995000),
             KvSetSession ''session:s1'' stored 86400])"
proof -
  have pk: "publicKey demo_keypair = derivation_path 1001" by (simp add: demo_keypair_def)
  have b0: "fst (getUsdcBalance dust_env (publicKey demo_keypair) demo_kv) = Inr 0"
    by (simp add: getUsdcBalance_run usdc_balance_def dust_env_def)
  have l0: "lamports_of dust_env (publicKey demo_keypair) = Inr 5000"
    by (simp add: dust_env_def)
  have b1: "fst (getUsdcBalance demo_env (publicKey demo_keypair) demo_kv) = Inr 2250000"
    by (simp add: getUsdcBalance_run usdc_balance_def demo_env_def)
  have l1: "lamports_of demo_env (publicKey demo_keypair) = Inr 3000000"
    by (simp add: demo_env_def)
  have ok: "kv_error demo_env = None
      \<and> getMasterKeypair demo_env = Inr \<lparr>publicKey = derivation_path 0, secretKey = ''seed''\<rparr>
      \<and> (\<forall>tx. \<exists>sg. send_result demo_env tx = Inr sg)"
    by (simp add: demo_env_def getMasterKeypair_def deriveKeypair_def demo_keys_def)
  from sweep_asset_then_gas[OF b0 l0, of "derivation_path 0"]
  have a: "sweepUsdc dust_env demo_keypair (derivation_path 0) demo_kv
             = (Inr None, demo_kv, [RpcTokenAccount (derivation_path 1001)])"
    and b: "sweepSol dust_env demo_keypair (derivation_path 0) demo_kv
             = (Inr None, demo_kv, [RpcBalance (derivation_path 1001)])"
    by (simp_all add: pk)
  from sweep_asset_then_gas[OF b1 l1, of "derivation_path 0"
      "\<lparr>publicKey = derivation_path 0, secretKey = ''seed''\<rparr>" "''s1''" demo_session] ok
  have c: "\<exists>stored. status stored = ''swept''
        \<and> trace_of (sweep_funds demo_env ''s1'' demo_session demo_keypair demo_kv) =
            [RpcTokenAccount (derivation_path 1001),
             Submit (TokenTransfer (derivation_path 1001) (derivation_path 0) 2250000),
             RpcBalance (derivation_path 1001),
             Submit (SystemTransfer (derivation_path 1001) (derivation_path 0) 2995000),
             KvSetSession ''session:s1'' stored 86400]"
    by (simp add: pk)
  from a b c show ?thesis by blast
qed


section \<open>Sender detection (C7)\<close>

lemma scan_pre_balances_find:
  "scan_pre_balances receiver post pres = map_option tb_owner (find (sent_from receiver post) pres)"
  by (induction pres) (auto simp: sent_from_def Let_def)

lemma find_None_list_ex: "(find P xs = None) = (\<not> list_ex P xs)"
  by (induction xs) auto

lemma scan_signatures_spec:
  assumes "\<forall>sg \<in> set sigs. \<exists>tx. transaction_of e sg = Inr tx"
  shows "\<exists>t. scan_signatures e receiver sigs s =
               (Inr (counterparty_spec receiver (List.map_filter (found_transaction e) sigs)), s, t)
             \<and> length t \<le> length sigs"
  using assms
proof (induction sigs)
  case Nil
  show ?case by (simp add: counterparty_spec_def run_simps)
next
  case (Cons sg sigs)
  then obtain t where ih: "scan_signatures e receiver sigs s =
               (Inr (counterparty_spec receiver (List.map_filter (found_transaction e) sigs)), s, t)"
    and len: "length t \<le> length sigs" by auto
  from Cons.prems obtain tx where tx: "transaction_of e sg = Inr tx" by auto
  have gt: "getTransaction e sg s = (Inr tx, s, [RpcTransaction sg])"
    using tx by (simp add: getTransaction_def pbind_def run_simps)
  show ?case
  proof (cases tx)
    case None
    then have ft: "found_transaction e sg = None" using tx by (simp add: found_transaction_def)
    show ?thesis using ih len None
      by (simp add: pbind_def gt ft List.map_filter_simps)
  next
    case (Some tr)
    then have ft: "found_transaction e sg = Some tr" using tx by (simp add: found_transaction_def)
    show ?thesis
    proof (cases "has_sender receiver tr")
      case True
      then have "find (sent_from receiver (postTokenBalances tr)) (preTokenBalances tr) \<noteq> None"
        by (simp add: has_sender_def find_None_list_ex)
      then show ?thesis using Some True
        by (auto simp: pbind_def gt ft List.map_filter_simps
              counterparty_spec_def scan_pre_balances_find run_simps)
    next
      case False
      then have "find (sent_from receiver (postTokenBalances tr)) (preTokenBalances tr) = None"
        by (simp add: has_sender_def find_None_list_ex)
      then show ?thesis using Some False ih len
        by (simp add: pbind_def gt ft List.map_filter_simps
              counterparty_spec_def scan_pre_balances_find)
    qed
  qed
qed

text \<open>
  C7. When the ledger answers the reads of the scan (the signature list and the transactions
  of its first ten entries), \<open>findUsdcSender\<close> returns the counterparty of the claim: the owner
  of a USDC account whose balance went down, and that the receiver does not own, in the most
  recent transaction of the window that has such an account, and null when no transaction of
  the window has one. The window holds at most ten transactions and the scan makes at most
  eleven ledger reads. Under any ledger, failing reads included, the function returns and
  does not throw.
\<close>

theorem findUsdcSender_most_recent_sender:
  assumes sigs: "signatures_for e receiver = Inr sigs"
    and txs: "\<forall>sg \<in> set (take 10 sigs). \<exists>tx. transaction_of e sg = Inr tx"
  shows "fst (findUsdcSender e receiver s)
           = Inr (counterparty_spec receiver (scanned_window e receiver))
       \<and> length (scanned_window e receiver) \<le> 10
       \<and> length (trace_of (findUsdcSender e receiver s)) \<le> 11
       \<and> (\<not> list_ex (has_sender receiver) (scanned_window e receiver)
            \<longrightarrow> fst (findUsdcSender e receiver s) = Inr None)
       \<and> (\<forall>e' err. fst (findUsdcSender e' receiver s) \<noteq> Inl err)"
proof (intro conjI allI impI)
  from scan_signatures_spec[OF txs, of receiver s] obtain t where
    sc: "scan_signatures e receiver (take 10 sigs) s =
           (Inr (counterparty_spec receiver (List.map_filter (found_transaction e) (take 10 sigs))), s, t)"
    and len: "length t \<le> length (take 10 sigs)" by blast
  have gs: "getSignaturesForAddress e receiver 10 s = (Inr (take 10 sigs), s, [RpcSignatures receiver 10])"
    using sigs by (simp add: getSignaturesForAddress_def pbind_def run_simps)
  have run: "findUsdcSender e receiver s =
      (Inr (counterparty_spec receiver (scanned_window e receiver)), s, RpcSignatures receiver 10 # t)"
    using sc sigs
    by (simp add: findUsdcSender_def ptry_def pbind_def gs scanned_window_def)
  show "fst (findUsdcSender e receiver s)
           = Inr (counterparty_spec receiver (scanned_window e receiver))"
    by (simp add: run)
  show "fst (findUsdcSender e receiver s) = Inr None"
    if "\<not> list_ex (has_sender receiver) (scanned_window e receiver)"
    using that by (simp add: run counterparty_spec_def find_None_list_ex[symmetric])
  show "length (trace_of (findUsdcSender e receiver s)) \<le> 11"
    using len by (simp add: run trace_of_def)
  show "length (scanned_window e receiver) \<le> 10"
    using sigs by (simp add: scanned_window_def List.map_filter_def)
       (rule order_trans[OF length_filter_le], simp)
  show "\<And>e' err. fst (findUsdcSender e' receiver s) \<noteq> Inl err"
    by (rule findUsdcSender_never_throws)
qed

theorem findUsdcSender_most_recent_sender_witness:
  "fst (findUsdcSender demo_env (derivation_path 1001) demo_kv) = Inr (Some ''buyer'')
   \<and> fst (findUsdcSender quiet_env (derivation_path 1001) demo_kv) = Inr None"
proof -
  have s1: "signatures_for demo_env (derivation_path 1001) = Inr [''sigA'']"
    and t1: "\<forall>sg \<in> set (take 10 [''sigA'']). \<exists>tx. transaction_of demo_env sg = Inr tx"
    by (simp_all add: demo_env_def)
  have s2: "signatures_for quiet_env (derivation_path 1001) = Inr []"
    and t2: "\<forall>sg \<in> set (take 10 []). \<exists>tx. transaction_of quiet_env sg = Inr tx"
    by (simp_all add: quiet_env_def)
  have w1: "counterparty_spec (derivation_path 1001) (scanned_window demo_env (derivation_path 1001))
            = Some ''buyer''"
    by (simp add: counterparty_spec_def scanned_window_def found_transaction_def has_sender_def
          sent_from_def List.map_filter_simps demo_env_def demo_tx_def USDC_MINT_def
          derivation_path_def)
  have w2: "counterparty_spec (derivation_path 1001) (scanned_window quiet_env (derivation_path 1001))
            = None"
    by (simp add: counterparty_spec_def scanned_window_def quiet_env_def List.map_filter_simps)
  from findUsdcSender_most_recent_sender[OF s1 t1, of demo_kv] w1
  have "fst (findUsdcSender demo_env (derivation_path 1001) demo_kv) = Inr (Some ''buyer'')"
    by simp
  moreover from findUsdcSender_most_recent_sender[OF s2 t2, of demo_kv] w2
  have "fst (findUsdcSender quiet_env (derivation_path 1001) demo_kv) = Inr None"
    by simp
  ultimately show ?thesis by blast
qed


section \<open>Key derivation and session indices (C8)\<close>

lemma redis_incr_ok:
  "kv_error e = None \<Longrightarrow>
   redis_incr e s = (Inr (counter s + 1), s\<lparr>counter := counter s + 1\<rparr>,
                     [KvIncr ''day-after-day:session-counter''])"
  by (simp add: redis_incr_def redis_request_def pbind_def run_simps)

lemma redis_incr_fail:
  "kv_error e = Some err \<Longrightarrow>
   redis_incr e s = (Inl err, s, [KvIncr ''day-after-day:session-counter''])"
  by (simp add: redis_incr_def redis_request_def pbind_def run_simps)

lemma redis_set_address_ok:
  "kv_error e = None \<Longrightarrow>
   redis_set_address e addr v ttl s =
     (Inr (), s\<lparr>addresses := (addresses s)(addr \<mapsto> (v, ttl))\<rparr>,
      [KvSetAddress (''address:'' @ addr) v ttl])"
  by (simp add: redis_set_address_def redis_request_def pbind_def run_simps)

lemma fund_step_run:
  "ptry (pbind (fundDerivedWallet e mk addr) (\<lambda>_.
           pbind (initUsdcAta e mk kp) (\<lambda>_. pret ())))
        (console_error ''ATA init error:'') s
   = (Inr (), s,
      Submit (SystemTransfer (publicKey mk) addr ATA_INIT_LAMPORTS)
      # (case send_result e (SystemTransfer (publicKey mk) addr ATA_INIT_LAMPORTS) of
           Inl err \<Rightarrow> [ConsoleError ''ATA init error:'' err]
         | Inr sg \<Rightarrow>
             RpcEnsureAta (publicKey mk) (publicKey kp)
             # (case ensure_ata e (publicKey mk) (publicKey kp) of
                  Inl err \<Rightarrow> [ConsoleError ''ATA init error:'' err]
                | Inr a \<Rightarrow> [])))"
  by (simp add: fundDerivedWallet_def initUsdcAta_def sendAndConfirmTransaction_def
        ptry_def pbind_def run_simps split: sum.splits)

lemma create_session_eq:
  "create_session e ot md s =
     (case kv_error e of
        Some err \<Rightarrow> (Inl err, s, [KvIncr ''day-after-day:session-counter''])
      | None \<Rightarrow>
         (case getMasterKeypair e of
            Inl err \<Rightarrow> (Inl err, s\<lparr>counter := counter s + 1\<rparr>,
                         [KvIncr ''day-after-day:session-counter''])
          | Inr mk \<Rightarrow>
             (case getSessionKeypair e (counter s + 1) of
                Inl err \<Rightarrow> (Inl err, s\<lparr>counter := counter s + 1\<rparr>,
                             [KvIncr ''day-after-day:session-counter''])
              | Inr kp \<Rightarrow>
                 (case getConnection e of
                    Inl err \<Rightarrow>
                      (Inl err, registered e (publicKey kp) ot md s,
                       [KvIncr ''day-after-day:session-counter'',
                        KvSetSession (''session:'' @ new_session_id e (counter s + 1))
                          (new_session e (counter s + 1) (publicKey kp) ot md) 1800,
                        KvSetAddress (''address:'' @ publicKey kp)
                          (new_session_id e (counter s + 1)) 1800])
                  | Inr u \<Rightarrow>
                      (Inr (Response 200
                              (Created_body (new_session_id e (counter s + 1)) (publicKey kp)
                                 REQUIRED_USDC (now e + 1800000))),
                       registered e (publicKey kp) ot md s,
                       [KvIncr ''day-after-day:session-counter'',
                        KvSetSession (''session:'' @ new_session_id e (counter s + 1))
                          (new_session e (counter s + 1) (publicKey kp) ot md) 1800,
                        KvSetAddress (''address:'' @ publicKey kp)
                          (new_session_id e (counter s + 1)) 1800]
                       @ fund_trace e mk kp)))))"
proof (cases "kv_error e")
  case (Some err)
  then show ?thesis
    by (simp add: create_session_def pbind_def redis_incr_fail)
next
  case None
  show ?thesis
    unfolding create_session_def Let_def
    by (simp add: None pbind_def run_simps redis_incr_ok[OF None] redis_set_session_ok[OF None]
          redis_set_address_ok[OF None] fund_step_run fund_trace_def
          registered_def new_session_def new_session_id_def put_session_def SESSION_TTL_def
          split: sum.splits)
qed

lemma preserves_store_free: "store_free P m \<Longrightarrow> preserves f m"
  unfolding store_free_def preserves_def by auto

lemma preserves_pret [simp]: "preserves f (pret x)"
  by (auto simp: preserves_def run_simps)

lemma preserves_pthrow [simp]: "preserves f (pthrow x)"
  by (auto simp: preserves_def run_simps)

lemma preserves_of_result [simp]: "preserves f (of_result x)"
  by (auto simp: preserves_def run_simps)

lemma preserves_console_error [simp]: "preserves f (console_error tag err)"
  by (auto simp: preserves_def run_simps)

lemma preserves_pbind:
  "preserves f m \<Longrightarrow> (\<And>x. preserves f (g x)) \<Longrightarrow> preserves f (pbind m g)"
  unfolding preserves_def pbind_def
  by (auto split: prod.splits sum.splits)

lemma preserves_ptry:
  "preserves f m \<Longrightarrow> (\<And>x. preserves f (h x)) \<Longrightarrow> preserves f (ptry m h)"
  unfolding preserves_def ptry_def
  by (auto split: prod.splits sum.splits)

lemma preserves_attempt: "preserves f m \<Longrightarrow> preserves f (attempt m)"
  unfolding preserves_def attempt_def by (auto split: prod.splits)

lemma preserves_redis_getJson: "preserves f (redis_getJson e sid)"
  by (cases "kv_error e")
     (auto simp: preserves_def redis_getJson_def redis_request_def pbind_def run_simps)

lemma preserves_redis_set_session: "preserves counter (redis_set_session e sid v ttl)"
  by (cases "kv_error e")
     (auto simp: preserves_def redis_set_session_def redis_request_def pbind_def run_simps)

lemma preserves_mint_failed: "preserves counter (mint_failed e sid sess buyer err)"
  unfolding mint_failed_def
  by (auto intro!: preserves_pbind preserves_redis_set_session)

lemma preserves_sweep_funds: "preserves counter (sweep_funds e sid sess kp)"
  unfolding sweep_funds_def
  by (auto intro!: preserves_pbind preserves_redis_set_session
        preserves_store_free[OF store_free_sweepUsdc] preserves_store_free[OF store_free_sweepSol])

lemma preserves_poll_settle: "preserves counter (poll_settle e sid loaded kp)"
  unfolding poll_settle_def Let_def
  by (auto intro!: preserves_pbind preserves_ptry preserves_attempt preserves_redis_set_session
        preserves_mint_failed preserves_sweep_funds
        preserves_store_free[OF store_free_findUsdcSender]
        preserves_store_free[OF store_free_mintNft]
        split: sum.splits)

lemma preserves_poll_check: "preserves counter (poll_check e req sid)"
  unfolding poll_check_def Let_def
  by (auto intro!: preserves_pbind preserves_redis_getJson
        preserves_store_free[OF store_free_getUsdcBalance]
        split: option.splits)

lemma preserves_poll_handler: "preserves counter (poll_handler e req)"
  unfolding poll_handler_def
  by (auto intro!: preserves_pbind preserves_ptry preserves_poll_check preserves_poll_settle
        split: option.splits sum.splits prod.splits)

lemma session_handler_counter:
  "session_handler e req s = (r, s', t) \<Longrightarrow> counter s \<le> counter s'"
  unfolding session_handler_def
  by (auto simp: ptry_def pbind_def run_simps create_session_eq registered_def
        split: if_splits option.splits json.splits sum.splits prod.splits)

lemma reachable_counter: "reachable s \<Longrightarrow> 0 \<le> counter s"
proof (induction rule: reachable.induct)
  case reach_init
  show ?case by (simp add: init_kv_def)
next
  case (reach_create s e req r s' t)
  then show ?case using session_handler_counter by fastforce
next
  case (reach_poll s e preq r s' t)
  then show ?case using preserves_poll_handler[of e preq] unfolding preserves_def by metis
qed simp_all

lemma digit_char_inj:
  assumes "a < 10" "b < 10" "digit_char a = digit_char b"
  shows "a = b"
  using assms by (auto simp: digit_char_def eval_nat_numeral less_Suc_eq)

lemma digit_char_not_minus: "k < 10 \<Longrightarrow> digit_char k \<noteq> CHR ''-''"
  by (auto simp: digit_char_def eval_nat_numeral less_Suc_eq)

lemma show_nat_nonempty: "show_nat n \<noteq> []"
  by (subst show_nat.simps) simp

lemma show_nat_small: "n < 10 \<Longrightarrow> show_nat n = [digit_char n]"
  by (subst show_nat.simps) simp

lemma show_nat_large:
  "\<not> n < 10 \<Longrightarrow> show_nat n = show_nat (n div 10) @ [digit_char (n mod 10)]"
  by (subst show_nat.simps) simp

lemma show_nat_inj: "show_nat n = show_nat m \<Longrightarrow> n = m"
proof (induction n arbitrary: m rule: show_nat.induct)
  case (1 n)
  show ?case
  proof (cases "n < 10")
    case small: True
    show ?thesis
    proof (cases "m < 10")
      case True
      then show ?thesis using small "1.prems" digit_char_inj
        by (simp add: show_nat_small)
    next
      case False
      then show ?thesis using small "1.prems" show_nat_nonempty[of "m div 10"]
        by (simp add: show_nat_small show_nat_large)
    qed
  next
    case large: False
    show ?thesis
    proof (cases "m < 10")
      case True
      then show ?thesis using large "1.prems" show_nat_nonempty[of "n div 10"]
        by (simp add: show_nat_small show_nat_large)
    next
      case False
      with large "1.prems" have eq: "show_nat (n div 10) = show_nat (m div 10)"
        and d: "digit_char (n mod 10) = digit_char (m mod 10)"
        by (simp_all add: show_nat_large)
      from "1.IH"[OF large eq] have "n div 10 = m div 10" .
      moreover from d have "n mod 10 = m mod 10" by (intro digit_char_inj) simp_all
      ultimately show ?thesis by (metis div_mult_mod_eq)
    qed
  qed
qed

lemma show_nat_no_minus: "CHR ''-'' \<notin> set (show_nat n)"
proof (induction n rule: show_nat.induct)
  case (1 n)
  show ?case
  proof (cases "n < 10")
    case True
    then show ?thesis using digit_char_not_minus[of n] by (simp add: show_nat_small)
  next
    case False
    then show ?thesis using "1.IH" digit_char_not_minus[of "n mod 10"]
      by (simp add: show_nat_large)
  qed
qed

lemma show_int_inj: "show_int i = show_int j \<Longrightarrow> i = j"
proof -
  assume eq: "show_int i = show_int j"
  have neg: "show_nat a \<noteq> CHR ''-'' # show_nat b" "CHR ''-'' # show_nat b \<noteq> show_nat a" for a b
    using show_nat_no_minus[of a] by (metis list.set_intros(1))+
  show ?thesis
  proof (cases "i < 0"; cases "j < 0")
    assume "i < 0" "j < 0"
    with eq have "nat (- i) = nat (- j)" by (auto simp: show_int_def dest: show_nat_inj)
    with \<open>i < 0\<close> \<open>j < 0\<close> show ?thesis by simp
  next
    assume "i < 0" "\<not> j < 0"
    with eq neg show ?thesis by (auto simp: show_int_def)
  next
    assume "\<not> i < 0" "j < 0"
    with eq neg show ?thesis by (auto simp: show_int_def)
  next
    assume "\<not> i < 0" "\<not> j < 0"
    with eq have "nat i = nat j" by (auto simp: show_int_def dest: show_nat_inj)
    with \<open>\<not> i < 0\<close> \<open>\<not> j < 0\<close> show ?thesis by simp
  qed
qed

lemma derivation_path_inj: "derivation_path i = derivation_path j \<Longrightarrow> i = j"
  by (simp add: derivation_path_def show_int_inj)

lemma session_handler_createdD:
  assumes "session_handler e req s = (Inr (Response 200 (Created_body sid addr amount exp)), s', t)"
  shows "\<exists>ot md mk kp.
           kv_error e = None \<and> getMasterKeypair e = Inr mk
           \<and> getSessionKeypair e (counter s + 1) = Inr kp
           \<and> sid = new_session_id e (counter s + 1) \<and> addr = publicKey kp
           \<and> s' = registered e (publicKey kp) ot md s"
  using assms unfolding session_handler_def
  by (auto simp: ptry_def pbind_def run_simps create_session_eq
        split: if_splits option.splits json.splits sum.splits prod.splits)

lemma deriveKeypair_configured:
  assumes "deriveKeypair e i = Inr kp"
  shows "\<exists>mnemonic. MASTER_SEED_PHRASE e = Some mnemonic \<and> mnemonic \<noteq> []
           \<and> (\<forall>j. deriveKeypair e j = hd_derive e mnemonic (derivation_path j))"
  using assms by (auto simp: deriveKeypair_def new_Error_def split: option.splits if_splits)

text \<open>
  C8. The keypair for an index is a function of the master secret, the HD-wallet library and
  the index alone (two environments that agree on the first two derive the same keypair for
  every index, and deriving changes nothing). In every store the service can reach from the
  empty one, a session creation that succeeds stores a session whose index is the incremented
  counter, at least 1; its derivation index, 1000 more, is not 0, its derivation path is not
  the master path, and, the library being injective on paths, its keypair is not the master
  keypair.
\<close>

theorem session_index_never_treasury:
  assumes reach: "reachable s"
    and run: "session_handler e req s
                = (Inr (Response 200 (Created_body sid addr amount exp)), s', t)"
  shows "\<exists>stored kp mnemonic.
           sessions s' sid = Some (stored, 1800)
           \<and> sessionIndex stored = counter s + 1 \<and> counter s' = counter s + 1
           \<and> 1 \<le> sessionIndex stored \<and> 1000 + sessionIndex stored \<noteq> 0
           \<and> derivation_path (1000 + sessionIndex stored) \<noteq> derivation_path 0
           \<and> MASTER_SEED_PHRASE e = Some mnemonic
           \<and> getSessionKeypair e (sessionIndex stored)
                = hd_derive e mnemonic (derivation_path (1000 + sessionIndex stored))
           \<and> getMasterKeypair e = hd_derive e mnemonic (derivation_path 0)
           \<and> getSessionKeypair e (sessionIndex stored) = Inr kp
           \<and> paymentAddress stored = publicKey kp \<and> addr = publicKey kp
           \<and> (inj (hd_derive e mnemonic) \<longrightarrow> getMasterKeypair e \<noteq> Inr kp)
           \<and> (\<forall>e' i. MASTER_SEED_PHRASE e' = MASTER_SEED_PHRASE e \<and> hd_derive e' = hd_derive e
                  \<longrightarrow> deriveKeypair e' i = deriveKeypair e i)"
proof -
  from session_handler_createdD[OF run] obtain ot md mk kp where
    mk: "getMasterKeypair e = Inr mk"
    and kp: "getSessionKeypair e (counter s + 1) = Inr kp"
    and sid: "sid = new_session_id e (counter s + 1)" and addr: "addr = publicKey kp"
    and s': "s' = registered e (publicKey kp) ot md s" by blast
  define stored where "stored = new_session e (counter s + 1) (publicKey kp) ot md"
  from reachable_counter[OF reach] have c: "0 \<le> counter s" .
  from kp obtain mnemonic where m: "MASTER_SEED_PHRASE e = Some mnemonic"
    and d: "\<And>j. deriveKeypair e j = hd_derive e mnemonic (derivation_path j)"
    using deriveKeypair_configured unfolding getSessionKeypair_def by blast
  have idx: "sessionIndex stored = counter s + 1" by (simp add: stored_def new_session_def)
  have path: "derivation_path (1000 + sessionIndex stored) \<noteq> derivation_path 0"
    using c idx by (auto dest: derivation_path_inj)
  have "sessions s' sid = Some (stored, 1800)"
    by (simp add: s' sid registered_def stored_def)
  moreover have "counter s' = counter s + 1" by (simp add: s' registered_def)
  moreover have "1 \<le> sessionIndex stored" "1000 + sessionIndex stored \<noteq> 0"
    using c idx by simp_all
  moreover have "getSessionKeypair e (sessionIndex stored)
                = hd_derive e mnemonic (derivation_path (1000 + sessionIndex stored))"
    "getMasterKeypair e = hd_derive e mnemonic (derivation_path 0)"
    by (simp_all add: getSessionKeypair_def getMasterKeypair_def d)
  moreover have "getSessionKeypair e (sessionIndex stored) = Inr kp" using kp idx by simp
  moreover have "paymentAddress stored = publicKey kp"
    by (simp add: stored_def new_session_def)
  moreover have "inj (hd_derive e mnemonic) \<longrightarrow> getMasterKeypair e \<noteq> Inr kp"
  proof
    assume inj: "inj (hd_derive e mnemonic)"
    show "getMasterKeypair e \<noteq> Inr kp"
    proof
      assume "getMasterKeypair e = Inr kp"
      with kp idx have "hd_derive e mnemonic (derivation_path 0)
          = hd_derive e mnemonic (derivation_path (1000 + sessionIndex stored))"
        by (simp add: getSessionKeypair_def getMasterKeypair_def d)
      with inj path show False by (auto dest: injD)
    qed
  qed
  moreover have "\<forall>e' i. MASTER_SEED_PHRASE e' = MASTER_SEED_PHRASE e \<and> hd_derive e' = hd_derive e
                  \<longrightarrow> deriveKeypair e' i = deriveKeypair e i"
    by (auto simp: deriveKeypair_def split: option.splits)
  ultimately show ?thesis using m path addr idx
    by - (rule exI[of _ stored], rule exI[of _ kp], rule exI[of _ mnemonic], intro conjI,
          assumption+)
qed

lemma demo_keys_inj: "inj (demo_keys mnemonic)"
  by (rule injI) (simp add: demo_keys_def)

theorem session_index_never_treasury_witness:
  "reachable init_kv
   \<and> fst (session_handler demo_env demo_create init_kv)
       = Inr (Response 200 (Created_body ''sess_1_5000'' (derivation_path 1001) 2250000 1805000))
   \<and> (\<exists>stored. sessions (fst (snd (session_handler demo_env demo_create init_kv))) ''sess_1_5000''
                   = Some (stored, 1800)
        \<and> sessionIndex stored = 1
        \<and> getMasterKeypair demo_env \<noteq> getSessionKeypair demo_env (sessionIndex stored))"
proof -
  let ?o = "session_handler demo_env demo_create init_kv"
  have r: "fst ?o
       = Inr (Response 200 (Created_body ''sess_1_5000'' (derivation_path 1001) 2250000 1805000))"
    by (simp add: session_handler_def demo_create_def json_get_def ptry_def create_session_eq
          demo_env_def demo_keys_def getMasterKeypair_def getSessionKeypair_def deriveKeypair_def
          getConnection_def init_kv_def new_session_id_def show_int_def show_nat.simps
          digit_char_def REQUIRED_USDC_def)
  then have run: "?o = (Inr (Response 200
        (Created_body ''sess_1_5000'' (derivation_path 1001) 2250000 1805000)),
        fst (snd ?o), snd (snd ?o))"
    by (metis prod.collapse)
  have c: "counter init_kv = 0" and m: "MASTER_SEED_PHRASE demo_env = Some ''seed''"
    and h: "hd_derive demo_env = demo_keys"
    by (simp_all add: init_kv_def demo_env_def)
  from session_index_never_treasury[OF reach_init run] c m h demo_keys_inj[of "''seed''"]
  have "\<exists>stored. sessions (fst (snd ?o)) ''sess_1_5000'' = Some (stored, 1800)
        \<and> sessionIndex stored = 1
        \<and> getMasterKeypair demo_env \<noteq> getSessionKeypair demo_env (sessionIndex stored)"
    by auto
  with r reach_init show ?thesis by blast
qed


section \<open>Session creation and the funding step (C10)\<close>

text \<open>
  C10. For a POST whose body has a truthy \<open>outputType\<close> and \<open>metadata\<close>, with the store, the
  two keypairs and the RPC endpoint available, session creation answers 200 with the session
  id, the payment address and the required amount, and leaves the session stored with status
  \<^verbatim>\<open>pending\<close> under that id, whatever the funding transfer and the token-account
  initialisation do: when either throws, the error is logged as \<^verbatim>\<open>ATA init error:\<close> and the
  answer and the stored session are the same.
\<close>

theorem session_created_despite_funding_failure:
  assumes kv: "kv_error e = None"
    and post: "sr_method req = ''POST''"
    and body: "sr_body req = Some b"
    and ot: "json_get b ''outputType'' = Some ot" "truthy ot"
    and md: "json_get b ''metadata'' = Some md" "truthy md"
    and mk: "getMasterKeypair e = Inr mk"
    and kp: "getSessionKeypair e (counter s + 1) = Inr kp"
    and conn: "getConnection e = Inr ()"
  shows "\<exists>s' t stored.
           session_handler e req s
             = (Inr (Response 200
                       (Created_body (new_session_id e (counter s + 1)) (publicKey kp)
                          REQUIRED_USDC (now e + 1800000))), s', t)
           \<and> sessions s' (new_session_id e (counter s + 1)) = Some (stored, 1800)
           \<and> status stored = ''pending''
           \<and> sessionId stored = new_session_id e (counter s + 1)
           \<and> paymentAddress stored = publicKey kp
           \<and> (\<forall>err. send_result e (SystemTransfer (publicKey mk) (publicKey kp) ATA_INIT_LAMPORTS)
                        = Inl err
                      \<or> (\<exists>sg. send_result e (SystemTransfer (publicKey mk) (publicKey kp)
                                                ATA_INIT_LAMPORTS) = Inr sg)
                        \<and> ensure_ata e (publicKey mk) (publicKey kp) = Inl err
                  \<longrightarrow> ConsoleError ''ATA init error:'' err \<in> set t)"
proof -
  from ot(1) obtain kvs where b: "b = JObj kvs"
    by (cases b) (simp_all add: json_get_def)
  have run: "session_handler e req s
      = (Inr (Response 200
                (Created_body (new_session_id e (counter s + 1)) (publicKey kp)
                   REQUIRED_USDC (now e + 1800000))),
         registered e (publicKey kp) ot md s,
         [KvIncr ''day-after-day:session-counter'',
          KvSetSession (''session:'' @ new_session_id e (counter s + 1))
            (new_session e (counter s + 1) (publicKey kp) ot md) 1800,
          KvSetAddress (''address:'' @ publicKey kp) (new_session_id e (counter s + 1)) 1800]
         @ fund_trace e mk kp)"
    using post body ot md unfolding b
    by (simp add: session_handler_def ptry_def create_session_eq kv mk kp conn)
  have "sessions (registered e (publicKey kp) ot md s) (new_session_id e (counter s + 1))
          = Some (new_session e (counter s + 1) (publicKey kp) ot md, 1800)"
    by (simp add: registered_def)
  moreover have "status (new_session e (counter s + 1) (publicKey kp) ot md) = ''pending''"
    "sessionId (new_session e (counter s + 1) (publicKey kp) ot md)
       = new_session_id e (counter s + 1)"
    "paymentAddress (new_session e (counter s + 1) (publicKey kp) ot md) = publicKey kp"
    by (simp_all add: new_session_def)
  moreover have "\<forall>err. send_result e (SystemTransfer (publicKey mk) (publicKey kp) ATA_INIT_LAMPORTS)
                        = Inl err
                      \<or> (\<exists>sg. send_result e (SystemTransfer (publicKey mk) (publicKey kp)
                                                ATA_INIT_LAMPORTS) = Inr sg)
                        \<and> ensure_ata e (publicKey mk) (publicKey kp) = Inl err
                  \<longrightarrow> ConsoleError ''ATA init error:'' err
                        \<in> set ([KvIncr ''day-after-day:session-counter'',
          KvSetSession (''session:'' @ new_session_id e (counter s + 1))
            (new_session e (counter s + 1) (publicKey kp) ot md) 1800,
          KvSetAddress (''address:'' @ publicKey kp) (new_session_id e (counter s + 1)) 1800]
         @ fund_trace e mk kp)"
    by (auto simp: fund_trace_def)
  ultimately show ?thesis using run by blast
qed

theorem session_created_despite_funding_failure_witness:
  "fst (session_handler unfunded_env demo_create init_kv)
     = Inr (Response 200 (Created_body ''sess_1_5000'' (derivation_path 1001) 2250000 1805000))
   \<and> (\<exists>stored. sessions (fst (snd (session_handler unfunded_env demo_create init_kv)))
                   ''sess_1_5000'' = Some (stored, 1800)
                 \<and> status stored = ''pending'')
   \<and> ConsoleError ''ATA init error:'' (new_Error ''insufficient funds'')
        \<in> set (trace_of (session_handler unfunded_env demo_create init_kv))"
proof -
  have kv: "kv_error unfunded_env = None"
    and post: "sr_method demo_create = ''POST''"
    and body: "sr_body demo_create
                 = Some (JObj [(''outputType'', JStr ''photo''), (''metadata'', JObj [])])"
    and ot: "json_get (JObj [(''outputType'', JStr ''photo''), (''metadata'', JObj [])])
               ''outputType'' = Some (JStr ''photo'')" "truthy (JStr ''photo'')"
    and md: "json_get (JObj [(''outputType'', JStr ''photo''), (''metadata'', JObj [])])
               ''metadata'' = Some (JObj [])" "truthy (JObj [])"
    and mk: "getMasterKeypair unfunded_env
               = Inr \<lparr>publicKey = derivation_path 0, secretKey = ''seed''\<rparr>"
    and kp: "getSessionKeypair unfunded_env (counter init_kv + 1)
               = Inr \<lparr>publicKey = derivation_path 1001, secretKey = ''seed''\<rparr>"
    and conn: "getConnection unfunded_env = Inr ()"
    by (simp_all add: unfunded_env_def demo_env_def demo_create_def json_get_def init_kv_def
          getMasterKeypair_def getSessionKeypair_def deriveKeypair_def demo_keys_def
          getConnection_def)
  have sid: "new_session_id unfunded_env (counter init_kv + 1) = ''sess_1_5000''"
    by (simp add: new_session_id_def init_kv_def unfunded_env_def demo_env_def show_int_def
          show_nat.simps digit_char_def)
  have fail: "send_result unfunded_env
                (SystemTransfer (derivation_path 0) (derivation_path 1001) ATA_INIT_LAMPORTS)
              = Inl (new_Error ''insufficient funds'')"
    and amt: "REQUIRED_USDC = 2250000" "now unfunded_env + 1800000 = 1805000"
    by (simp_all add: unfunded_env_def demo_env_def REQUIRED_USDC_def)
  from session_created_despite_funding_failure[OF kv post body ot md mk kp conn] sid fail amt
  show ?thesis by (auto simp: trace_of_def)
qed

end
